theory Spec2Isabelle
  imports Main
begin

section \<open>JavaScript strings\<close>

text \<open>
  A JavaScript string is a sequence of UTF-16 code units. The model keeps the code units
  in the range 0..255 (Latin-1), one \<^typ>\<open>char\<close> each, so \<open>length\<close> is the string's
  \<^verbatim>\<open>.length\<close>. The white space of \<^verbatim>\<open>String.prototype.trim\<close>, of the regular
  expression class \<^verbatim>\<open>\s\<close> and of the numeric parsers is, in that range, TAB, LF, VT, FF,
  CR, SPACE and NO-BREAK SPACE.
\<close>

definition is_ws :: "char \<Rightarrow> bool" where
  "is_ws c = (c \<in> set [CHR 0x09, CHR 0x0A, CHR 0x0B, CHR 0x0C, CHR 0x0D, CHR 0x20, CHR 0xA0])"

definition is_digit :: "char \<Rightarrow> bool" where
  "is_digit c = (c \<in> set ''0123456789'')"

definition trim_start :: "string \<Rightarrow> string" where
  "trim_start s = dropWhile is_ws s"

definition trim :: "string \<Rightarrow> string" where
  "trim s = rev (dropWhile is_ws (rev (dropWhile is_ws s)))"

definition upper_chars :: "char list" where
  "upper_chars = ''ABCDEFGHIJKLMNOPQRSTUVWXYZ'' @
     [CHR 0xC0, CHR 0xC1, CHR 0xC2, CHR 0xC3, CHR 0xC4, CHR 0xC5, CHR 0xC6, CHR 0xC7,
      CHR 0xC8, CHR 0xC9, CHR 0xCA, CHR 0xCB, CHR 0xCC, CHR 0xCD, CHR 0xCE, CHR 0xCF,
      CHR 0xD0, CHR 0xD1, CHR 0xD2, CHR 0xD3, CHR 0xD4, CHR 0xD5, CHR 0xD6,
      CHR 0xD8, CHR 0xD9, CHR 0xDA, CHR 0xDB, CHR 0xDC, CHR 0xDD, CHR 0xDE]"

definition lower_chars :: "char list" where
  "lower_chars = ''abcdefghijklmnopqrstuvwxyz'' @
     [CHR 0xE0, CHR 0xE1, CHR 0xE2, CHR 0xE3, CHR 0xE4, CHR 0xE5, CHR 0xE6, CHR 0xE7,
      CHR 0xE8, CHR 0xE9, CHR 0xEA, CHR 0xEB, CHR 0xEC, CHR 0xED, CHR 0xEE, CHR 0xEF,
      CHR 0xF0, CHR 0xF1, CHR 0xF2, CHR 0xF3, CHR 0xF4, CHR 0xF5, CHR 0xF6,
      CHR 0xF8, CHR 0xF9, CHR 0xFA, CHR 0xFB, CHR 0xFC, CHR 0xFD, CHR 0xFE]"

definition to_lower_char :: "char \<Rightarrow> char" where
  "to_lower_char c = (case map_of (zip upper_chars lower_chars) c of Some l \<Rightarrow> l | None \<Rightarrow> c)"

definition toLowerCase :: "string \<Rightarrow> string" where
  "toLowerCase s = map to_lower_char s"

definition startsWith :: "string \<Rightarrow> string \<Rightarrow> bool" where
  "startsWith s p = (take (length p) s = p)"

definition endsWith :: "string \<Rightarrow> string \<Rightarrow> bool" where
  "endsWith s p = (length p \<le> length s \<and> drop (length s - length p) s = p)"

definition includes_char :: "string \<Rightarrow> char \<Rightarrow> bool" where
  "includes_char s c = (c \<in> set s)"

text \<open>\<^verbatim>\<open>s.replace(c, "")\<close> with a one-character string pattern removes the first occurrence only.\<close>

fun remove_first :: "char \<Rightarrow> string \<Rightarrow> string" where
  "remove_first c [] = []"
| "remove_first c (x # xs) = (if x = c then xs else x # remove_first c xs)"

text \<open>\<^verbatim>\<open>s.split(c)\<close>: the pieces between the occurrences of \<open>c\<close>; never an empty array.\<close>

fun split_on :: "char \<Rightarrow> string \<Rightarrow> string list" where
  "split_on c [] = [[]]"
| "split_on c (x # xs) =
     (if x = c then [] # split_on c xs
      else (case split_on c xs of p # ps \<Rightarrow> (x # p) # ps | [] \<Rightarrow> [[x]]))"

text \<open>\<^verbatim>\<open>xs.join(sep)\<close>.\<close>

fun join :: "string \<Rightarrow> string list \<Rightarrow> string" where
  "join sep [] = []"
| "join sep [x] = x"
| "join sep (x # y # ys) = x @ sep @ join sep (y # ys)"

definition digit_val :: "char \<Rightarrow> nat" where
  "digit_val c = of_char c - 48"

definition digits_val :: "string \<Rightarrow> nat" where
  "digits_val s = foldl (\<lambda>a c. 10 * a + digit_val c) 0 s"

definition digit_char :: "nat \<Rightarrow> char" where
  "digit_char d = ''0123456789'' ! d"

text \<open>The decimal numeral of a natural number.\<close>

fun dec :: "nat \<Rightarrow> string" where
  "dec n = (if n < 10 then [digit_char n] else dec (n div 10) @ [digit_char (n mod 10)])"

declare dec.simps [simp del]

section \<open>JavaScript numbers\<close>

text \<open>
  A Number is an IEEE 754 double. The model keeps the value of a finite double exactly:
  \<open>Fin n\<close> is the double whose value is the integer \<open>n\<close>, \<open>Frac m k\<close> (\<open>m\<close> odd, \<open>0 < k\<close>)
  the double whose value is \<open>m / 2 ^ k\<close>, which is not an integer. Every operation rounds
  its exact result to the nearest double, ties to even (\<open>round_ratio\<close>). The sign of zero
  is not tracked: no operation of the program observes it.
\<close>

datatype jsnum = NaN | Fin int | Frac int nat | PosInf | NegInf

fun bit_length :: "nat \<Rightarrow> nat" where
  "bit_length n = (if n = 0 then 0 else Suc (bit_length (n div 2)))"

declare bit_length.simps [simp del]

fun dyadic :: "int \<Rightarrow> nat \<Rightarrow> jsnum" where
  "dyadic m k = (if k = 0 then Fin m else if even m then dyadic (m div 2) (k - 1) else Frac m k)"

declare dyadic.simps [simp del]

text \<open>The double \<open>m * 2 ^ e\<close>, for a mantissa \<open>m\<close> of at most 53 bits; overflow is \<open>Infinity\<close>.\<close>

definition mk_double :: "nat \<Rightarrow> int \<Rightarrow> jsnum" where
  "mk_double m e =
     (if 0 \<le> e then (if 2 ^ 1024 \<le> m * 2 ^ nat e then PosInf else Fin (int (m * 2 ^ nat e)))
      else dyadic (int m) (nat (- e)))"

definition scaled_floor :: "nat \<Rightarrow> nat \<Rightarrow> int \<Rightarrow> nat" where
  "scaled_floor a b e = (if 0 \<le> e then a div (b * 2 ^ nat e) else (a * 2 ^ nat (- e)) div b)"

text \<open>
  The double nearest to \<open>a / b\<close> (\<open>0 < a\<close>, \<open>0 < b\<close>): the binary exponent \<open>e\<close> puts
  \<open>a / (b * 2 ^ e)\<close> in \<open>[2 ^ 52, 2 ^ 53)\<close>, and is at least \<open>-1074\<close> (subnormal numbers);
  the quotient is rounded to an integer mantissa, ties to even.
\<close>

definition round_ratio :: "nat \<Rightarrow> nat \<Rightarrow> jsnum" where
  "round_ratio a b =
     (let e0 = int (bit_length a) - int (bit_length b) - 53;
          e1 = (if 2 ^ 52 \<le> scaled_floor a b (e0 + 1) then e0 + 1 else e0);
          e = max e1 (- 1074);
          num = (if 0 \<le> e then a else a * 2 ^ nat (- e));
          den = (if 0 \<le> e then b * 2 ^ nat e else b);
          q = num div den;
          r = num mod den;
          q' = (if den < 2 * r \<or> (2 * r = den \<and> odd q) then q + 1 else q)
      in mk_double q' e)"

definition num_neg :: "jsnum \<Rightarrow> jsnum" where
  "num_neg x = (case x of NaN \<Rightarrow> NaN | Fin n \<Rightarrow> Fin (- n) | Frac m k \<Rightarrow> Frac (- m) k
                | PosInf \<Rightarrow> NegInf | NegInf \<Rightarrow> PosInf)"

text \<open>The double nearest to \<open>n / d\<close>. Every integer up to \<open>2 ^ 53\<close> in magnitude is a double.\<close>

definition to_double :: "int \<Rightarrow> nat \<Rightarrow> jsnum" where
  "to_double n d =
     (if n = 0 then Fin 0
      else if d = 1 \<and> \<bar>n\<bar> \<le> 2 ^ 53 then Fin n
      else if 0 < n then round_ratio (nat n) d
      else num_neg (round_ratio (nat (- n)) d))"

text \<open>The exact value of a finite double as a fraction.\<close>

definition numer :: "jsnum \<Rightarrow> int" where
  "numer x = (case x of Fin n \<Rightarrow> n | Frac m k \<Rightarrow> m | _ \<Rightarrow> 0)"

definition denom :: "jsnum \<Rightarrow> nat" where
  "denom x = (case x of Frac m k \<Rightarrow> 2 ^ k | _ \<Rightarrow> 1)"

definition is_finite :: "jsnum \<Rightarrow> bool" where
  "is_finite x = (case x of Fin n \<Rightarrow> True | Frac m k \<Rightarrow> True | _ \<Rightarrow> False)"

text \<open>\<^verbatim>\<open>Number.isInteger\<close>.\<close>

definition isInteger :: "jsnum \<Rightarrow> bool" where
  "isInteger x = (case x of Fin n \<Rightarrow> True | _ \<Rightarrow> False)"

text \<open>\<^verbatim>\<open>Math.abs\<close> and \<^verbatim>\<open>Math.floor\<close>.\<close>

definition num_abs :: "jsnum \<Rightarrow> jsnum" where
  "num_abs x = (case x of NaN \<Rightarrow> NaN | Fin n \<Rightarrow> Fin \<bar>n\<bar> | Frac m k \<Rightarrow> Frac \<bar>m\<bar> k
                | PosInf \<Rightarrow> PosInf | NegInf \<Rightarrow> PosInf)"

definition num_floor :: "jsnum \<Rightarrow> jsnum" where
  "num_floor x = (case x of Frac m k \<Rightarrow> Fin (m div 2 ^ k) | _ \<Rightarrow> x)"

text \<open>The sign of a value that is not NaN: \<open>-1\<close>, \<open>0\<close> or \<open>1\<close>.\<close>

definition num_sgn :: "jsnum \<Rightarrow> int" where
  "num_sgn x = (case x of PosInf \<Rightarrow> 1 | NegInf \<Rightarrow> - 1 | _ \<Rightarrow> sgn (numer x))"

text \<open>\<^verbatim>\<open>x * y\<close>, \<^verbatim>\<open>x - y\<close>, \<^verbatim>\<open>x > y\<close> and \<^verbatim>\<open>x <= y\<close> on Numbers; a comparison with NaN is false.\<close>

definition num_mul :: "jsnum \<Rightarrow> jsnum \<Rightarrow> jsnum" where
  "num_mul x y =
     (if x = NaN \<or> y = NaN then NaN
      else if is_finite x \<and> is_finite y then to_double (numer x * numer y) (denom x * denom y)
      else if num_sgn x * num_sgn y = 0 then NaN
      else if 0 < num_sgn x * num_sgn y then PosInf else NegInf)"

definition num_sub :: "jsnum \<Rightarrow> jsnum \<Rightarrow> jsnum" where
  "num_sub x y =
     (if x = NaN \<or> y = NaN then NaN
      else if is_finite x \<and> is_finite y
        then to_double (numer x * int (denom y) - numer y * int (denom x)) (denom x * denom y)
      else if is_finite y then x
      else if is_finite x then num_neg y
      else if x = y then NaN else x)"

definition num_gt :: "jsnum \<Rightarrow> jsnum \<Rightarrow> bool" where
  "num_gt x y =
     (if x = NaN \<or> y = NaN then False
      else if is_finite x \<and> is_finite y
        then numer y * int (denom x) < numer x * int (denom y)
      else if x = y then False
      else x = PosInf \<or> y = NegInf)"

definition num_le :: "jsnum \<Rightarrow> jsnum \<Rightarrow> bool" where
  "num_le x y = (x \<noteq> NaN \<and> y \<noteq> NaN \<and> \<not> num_gt x y)"

text \<open>Truthiness of a Number: neither zero nor NaN.\<close>

definition num_truthy :: "jsnum \<Rightarrow> bool" where
  "num_truthy x = (x \<noteq> NaN \<and> x \<noteq> Fin 0)"

subsection \<open>Number to string\<close>

text \<open>
  \<^verbatim>\<open>Number::toString\<close> of ECMAScript, for a positive finite double \<open>x = a / b\<close>: integers
  \<open>n\<close>, \<open>k\<close>, \<open>s\<close> with \<open>10 ^ (k - 1) \<le> s < 10 ^ k\<close> such that \<open>s * 10 ^ (n - k)\<close> rounds to
  \<open>x\<close>, \<open>k\<close> as small as possible and then \<open>s * 10 ^ (n - k)\<close> as close to \<open>x\<close> as possible.
  The digits of \<open>s\<close> are then laid out as an integer (\<open>k \<le> n \<le> 21\<close>), with a decimal point,
  or in exponent notation (\<open>21 < n\<close>: a value of at least \<open>10 ^ 21\<close>).
\<close>

function lead_zeros :: "nat \<Rightarrow> nat \<Rightarrow> nat" where
  "lead_zeros a b = (if a = 0 \<or> b \<le> a then 0 else Suc (lead_zeros (10 * a) b))"
  by pat_completeness auto
termination
  by (relation "measure (\<lambda>(a, b). b - a)") auto

declare lead_zeros.simps [simp del]

text \<open>The \<open>n\<close> with \<open>10 ^ (n - 1) \<le> a / b < 10 ^ n\<close>.\<close>

definition int_digits :: "nat \<Rightarrow> nat \<Rightarrow> int" where
  "int_digits a b =
     (if b \<le> a then int (length (dec (a div b))) else - int (lead_zeros (10 * a) b))"

definition cand_value :: "nat \<Rightarrow> int \<Rightarrow> nat \<Rightarrow> jsnum" where
  "cand_value k n s =
     (if int k \<le> n then to_double (int (s * 10 ^ nat (n - int k))) 1
      else to_double (int s) (10 ^ nat (int k - n)))"

definition cand_floor :: "nat \<Rightarrow> nat \<Rightarrow> nat \<Rightarrow> int \<Rightarrow> nat" where
  "cand_floor a b k n =
     (if n \<le> int k then (a * 10 ^ nat (int k - n)) div b else a div (b * 10 ^ nat (n - int k)))"

definition cand_ok :: "jsnum \<Rightarrow> nat \<Rightarrow> int \<Rightarrow> nat \<Rightarrow> bool" where
  "cand_ok x k n s = (10 ^ (k - 1) \<le> s \<and> s < 10 ^ k \<and> cand_value k n s = x)"

definition candidates :: "jsnum \<Rightarrow> nat \<Rightarrow> nat \<Rightarrow> nat \<Rightarrow> (nat \<times> int) list" where
  "candidates x a b k =
     (let n0 = int_digits a b
      in filter (\<lambda>(s, n). cand_ok x k n s)
           [(cand_floor a b k n0, n0), (cand_floor a b k n0 + 1, n0),
            (cand_floor a b k (n0 + 1), n0 + 1), (cand_floor a b k (n0 + 1) + 1, n0 + 1)])"

text \<open>The distance of \<open>s * 10 ^ (n - k)\<close> from \<open>a / b\<close>, as a fraction.\<close>

definition cand_dist :: "nat \<Rightarrow> nat \<Rightarrow> nat \<Rightarrow> nat \<times> int \<Rightarrow> int \<times> int" where
  "cand_dist a b k c =
     (case c of (s, n) \<Rightarrow>
        if int k \<le> n then (\<bar>int s * 10 ^ nat (n - int k) * int b - int a\<bar>, int b)
        else (\<bar>int s * int b - int a * 10 ^ nat (int k - n)\<bar>, int b * 10 ^ nat (int k - n)))"

definition closer :: "nat \<Rightarrow> nat \<Rightarrow> nat \<Rightarrow> nat \<times> int \<Rightarrow> nat \<times> int \<Rightarrow> bool" where
  "closer a b k c d =
     (case (cand_dist a b k c, cand_dist a b k d) of ((p, q), (p', q')) \<Rightarrow>
        p * q' < p' * q \<or> (p * q' = p' * q \<and> even (fst c)))"

fun closest :: "nat \<Rightarrow> nat \<Rightarrow> nat \<Rightarrow> (nat \<times> int) list \<Rightarrow> (nat \<times> int) option" where
  "closest a b k [] = None"
| "closest a b k (c # cs) =
     (case closest a b k cs of None \<Rightarrow> Some c
      | Some d \<Rightarrow> if closer a b k d c then Some d else Some c)"

definition shortest :: "jsnum \<Rightarrow> nat \<Rightarrow> nat \<Rightarrow> (nat \<times> nat \<times> int) option" where
  "shortest x a b =
     (case List.find (\<lambda>k. candidates x a b k \<noteq> [])
             [1, 2, 3, 4, 5, 6, 7, 8, 9, 10, 11, 12, 13, 14, 15, 16, 17] of
        None \<Rightarrow> None
      | Some k \<Rightarrow> (case closest a b k (candidates x a b k) of
                     None \<Rightarrow> None | Some (s, n) \<Rightarrow> Some (k, s, n)))"

fun zeros :: "nat \<Rightarrow> string" where
  "zeros n = (if n = 0 then [] else CHR ''0'' # zeros (n - 1))"

declare zeros.simps [simp del]

definition layout :: "nat \<Rightarrow> nat \<Rightarrow> int \<Rightarrow> string" where
  "layout k s n =
     (let ds = dec s
      in if int k \<le> n \<and> n \<le> 21 then ds @ zeros (nat (n - int k))
         else if 0 < n \<and> n \<le> 21 then take (nat n) ds @ ''.'' @ drop (nat n) ds
         else if - 6 < n \<and> n \<le> 0 then ''0.'' @ zeros (nat (- n)) @ ds
         else (if k = 1 then ds else take 1 ds @ ''.'' @ drop 1 ds) @ ''e'' @
              (if n - 1 < 0 then ''-'' else ''+'') @ dec (nat \<bar>n - 1\<bar>))"

text \<open>A positive finite double. An integer up to \<open>2 ^ 53\<close> is printed as its decimal numeral.\<close>

definition pos_to_string :: "jsnum \<Rightarrow> string" where
  "pos_to_string x =
     (if isInteger x \<and> numer x \<le> 2 ^ 53 then dec (nat (numer x))
      else (case shortest x (nat (numer x)) (denom x) of
              None \<Rightarrow> dec (nat (numer x))
            | Some (k, s, n) \<Rightarrow> layout k s n))"

definition number_to_string :: "jsnum \<Rightarrow> string" where
  "number_to_string x =
     (case x of
        NaN \<Rightarrow> ''NaN''
      | PosInf \<Rightarrow> ''Infinity''
      | NegInf \<Rightarrow> ''-Infinity''
      | _ \<Rightarrow> (if numer x < 0 then ''-'' @ pos_to_string (num_abs x) else pos_to_string x))"

subsection \<open>String to number\<close>

definition strip_sign :: "string \<Rightarrow> bool \<times> string" where
  "strip_sign s =
     (case s of
        [] \<Rightarrow> (False, [])
      | c # cs \<Rightarrow> if c = CHR ''-'' then (True, cs) else if c = CHR ''+'' then (False, cs)
                  else (False, s))"

definition with_sign :: "bool \<Rightarrow> jsnum \<Rightarrow> jsnum" where
  "with_sign neg x = (if neg then num_neg x else x)"

definition radix_digits :: "nat \<Rightarrow> char list" where
  "radix_digits r = take r ''0123456789abcdefghijklmnopqrstuvwxyz''"

definition is_radix_digit :: "nat \<Rightarrow> char \<Rightarrow> bool" where
  "is_radix_digit r c = (to_lower_char c \<in> set (radix_digits r))"

definition radix_digit_val :: "nat \<Rightarrow> char \<Rightarrow> nat" where
  "radix_digit_val r c = length (takeWhile (\<lambda>d. d \<noteq> to_lower_char c) (radix_digits r))"

definition radix_val :: "nat \<Rightarrow> string \<Rightarrow> nat" where
  "radix_val r s = foldl (\<lambda>a c. r * a + radix_digit_val r c) 0 s"

text \<open>
  \<^verbatim>\<open>parseInt(s, 10)\<close>: leading white space and a sign are skipped, the longest run of
  decimal digits is read, anything after it is ignored; no digit gives NaN. The integer
  read is rounded to the nearest double.
\<close>

definition parseInt10 :: "string \<Rightarrow> jsnum" where
  "parseInt10 s =
     (let (neg, u) = strip_sign (trim_start s);
          ds = takeWhile is_digit u
      in if ds = [] then NaN else with_sign neg (to_double (int (digits_val ds)) 1))"

text \<open>\<^verbatim>\<open>parseInt(s)\<close>: as above, but a prefix \<^verbatim>\<open>0x\<close> or \<^verbatim>\<open>0X\<close> selects radix 16.\<close>

definition parseInt :: "string \<Rightarrow> jsnum" where
  "parseInt s =
     (let (neg, u) = strip_sign (trim_start s)
      in if startsWith u ''0x'' \<or> startsWith u ''0X''
         then (let hs = takeWhile (is_radix_digit 16) (drop 2 u)
               in if hs = [] then NaN else with_sign neg (to_double (int (radix_val 16 hs)) 1))
         else (let ds = takeWhile is_digit u
               in if ds = [] then NaN else with_sign neg (to_double (int (digits_val ds)) 1)))"

text \<open>
  The exponent part of a decimal literal: \<^verbatim>\<open>e\<close> or \<^verbatim>\<open>E\<close>, an optional sign and at least
  one digit; otherwise nothing is read.
\<close>

definition scan_exponent :: "string \<Rightarrow> int \<times> string" where
  "scan_exponent r =
     (case r of
        [] \<Rightarrow> (0, [])
      | c # cs \<Rightarrow>
          if c = CHR ''e'' \<or> c = CHR ''E''
          then (let (neg, ds) = strip_sign cs; d = takeWhile is_digit ds
                in if d = [] then (0, r)
                   else ((if neg then - int (digits_val d) else int (digits_val d)),
                         dropWhile is_digit ds))
          else (0, r))"

text \<open>
  The longest prefix that is an unsigned decimal literal (digits, an optional fraction, an
  optional exponent): its value \<open>m * 10 ^ t\<close> as \<open>(m, t)\<close>, and the rest of the string.
\<close>

definition scan_decimal :: "string \<Rightarrow> (nat \<times> int \<times> string) option" where
  "scan_decimal s =
     (let ip = takeWhile is_digit s;
          r1 = dropWhile is_digit s;
          has_dot = (r1 \<noteq> [] \<and> hd r1 = CHR ''.'');
          fp = (if has_dot then takeWhile is_digit (tl r1) else []);
          r2 = (if has_dot then dropWhile is_digit (tl r1) else r1)
      in if ip = [] \<and> fp = [] then None
         else (let (ex, r3) = scan_exponent r2
               in Some (digits_val (ip @ fp), ex - int (length fp), r3)))"

definition decimal_value :: "nat \<Rightarrow> int \<Rightarrow> jsnum" where
  "decimal_value m t =
     (if 0 \<le> t then to_double (int (m * 10 ^ nat t)) 1 else to_double (int m) (10 ^ nat (- t)))"

text \<open>\<^verbatim>\<open>parseFloat(s)\<close>: the longest prefix, after white space, that is a decimal literal.\<close>

definition parseFloat :: "string \<Rightarrow> jsnum" where
  "parseFloat s =
     (let (neg, u) = strip_sign (trim_start s)
      in if startsWith u ''Infinity'' then (if neg then NegInf else PosInf)
         else (case scan_decimal u of
                 None \<Rightarrow> NaN
               | Some (m, t, r) \<Rightarrow> with_sign neg (decimal_value m t)))"

text \<open>
  \<^verbatim>\<open>ToNumber\<close> of a string (the conversion \<^verbatim>\<open>*\<close> applies to a string operand): the whole
  string, trimmed, must be a numeric literal; the empty string is \<open>0\<close>.
\<close>

definition radix_literal :: "nat \<Rightarrow> string \<Rightarrow> jsnum" where
  "radix_literal r ds =
     (if ds \<noteq> [] \<and> list_all (is_radix_digit r) ds then to_double (int (radix_val r ds)) 1 else NaN)"

definition to_number :: "string \<Rightarrow> jsnum" where
  "to_number s =
     (let t = trim s
      in if t = [] then Fin 0
         else if startsWith t ''0x'' \<or> startsWith t ''0X'' then radix_literal 16 (drop 2 t)
         else if startsWith t ''0o'' \<or> startsWith t ''0O'' then radix_literal 8 (drop 2 t)
         else if startsWith t ''0b'' \<or> startsWith t ''0B'' then radix_literal 2 (drop 2 t)
         else (let (neg, u) = strip_sign t
               in if u = ''Infinity'' then (if neg then NegInf else PosInf)
                  else (case scan_decimal u of
                          Some (m, e, []) \<Rightarrow> with_sign neg (decimal_value m e)
                        | _ \<Rightarrow> NaN)))"

section \<open>Values, the field schema and the incoming record\<close>

text \<open>
  The values a request body holds for a field: \<^verbatim>\<open>null\<close>, a boolean, a number or a string
  (a multipart form delivers strings only, a JSON body any of them). A key that is absent
  reads as \<^verbatim>\<open>undefined\<close>, modelled by \<open>None\<close> of the lookup. Arrays and nested objects
  as field values are outside the model.
\<close>

datatype jsval = JNull | JBool bool | JNum jsnum | JStr string

text \<open>\<^verbatim>\<open>String(value)\<close>.\<close>

definition to_string :: "jsval \<Rightarrow> string" where
  "to_string v =
     (case v of JNull \<Rightarrow> ''null'' | JBool b \<Rightarrow> (if b then ''true'' else ''false'')
      | JNum x \<Rightarrow> number_to_string x | JStr s \<Rightarrow> s)"

datatype ftype =
  TText | TDescription | TNumber | TAmount | TYesno | TDatetime | TDate | TEmail | TPhone
  | TUrl | TPhoto | TFile

datatype extensions = All | Exts "string list"

record file_config =
  maxSize :: nat
  extensions :: extensions

text \<open>
  One entry of \<^verbatim>\<open>schema\<close>. \<open>limit\<close> and \<open>scale\<close> are strings in the source (\<^verbatim>\<open>"20"\<close>, and
  \<^verbatim>\<open>""\<close> when unset).
\<close>

record fieldspec =
  ftype :: ftype
  limit :: string
  scale :: string
  required :: bool
  unique :: bool
  allowNegative :: bool
  fileConfig :: "file_config option"

text \<open>
  \<^verbatim>\<open>Object.entries(schema)\<close>: the fields in declaration order. The field names of a schema
  are distinct, and none is the name of a property inherited from \<^verbatim>\<open>Object.prototype\<close>,
  so that reading \<^verbatim>\<open>body[name]\<close> or \<^verbatim>\<open>files[name]\<close> for a field name sees own properties
  only.
\<close>

type_synonym schema = "(string \<times> fieldspec) list"

definition TABLE_NAME :: string where
  "TABLE_NAME = ''Ring''"

definition AUTO_CREATED_AT :: bool where
  "AUTO_CREATED_AT = True"

definition schema :: schema where
  "schema =
     [(''name'', \<lparr>ftype = TText, limit = ''20'', scale = [], required = True, unique = False,
                  allowNegative = True, fileConfig = None\<rparr>),
      (''phone'', \<lparr>ftype = TPhone, limit = ''10'', scale = [], required = True, unique = False,
                   allowNegative = False, fileConfig = None\<rparr>),
      (''email'', \<lparr>ftype = TEmail, limit = [], scale = [], required = False, unique = False,
                   allowNegative = False, fileConfig = None\<rparr>),
      (''ring_size'', \<lparr>ftype = TAmount, limit = ''10'', scale = ''2'', required = True,
                       unique = False, allowNegative = True, fileConfig = None\<rparr>),
      (''ss'', \<lparr>ftype = TPhoto, limit = [], scale = [], required = True, unique = False,
                allowNegative = False,
                fileConfig = Some \<lparr>maxSize = 10, extensions = All\<rparr>\<rparr>),
      (''caret'', \<lparr>ftype = TNumber, limit = ''2'', scale = [], required = True, unique = False,
                   allowNegative = True, fileConfig = None\<rparr>),
      (''aadhar'', \<lparr>ftype = TPhoto, limit = [], scale = [], required = True, unique = False,
                    allowNegative = False,
                    fileConfig = Some \<lparr>maxSize = 10, extensions = All\<rparr>\<rparr>)]"

text \<open>An uploaded file as multer delivers it: the fields the program reads.\<close>

record upload =
  file_size :: nat
  originalname :: string
  buffer :: "nat list"

text \<open>
  The scalar record and the file map, as the list of their own properties in the order of
  \<^verbatim>\<open>Object.keys\<close>; the keys of each are distinct. A file map holds an array of files per
  key.
\<close>

type_synonym body = "(string \<times> jsval) list"
type_synonym files = "(string \<times> upload list) list"

text \<open>
  The two parsers of the platform the program calls and the model does not define:
  \<^verbatim>\<open>new URL(s)\<close> succeeds, and \<^verbatim>\<open>new Date(s)\<close> is a valid date, for a string \<open>s\<close>.
\<close>

record platform =
  url_parses :: "string \<Rightarrow> bool"
  date_parses :: "string \<Rightarrow> bool"

text \<open>\<^verbatim>\<open>x || d\<close> on a string and on a Number.\<close>

definition str_or :: "string \<Rightarrow> string \<Rightarrow> string" where
  "str_or s d = (if s = [] then d else s)"

definition num_or :: "jsnum \<Rightarrow> jsnum \<Rightarrow> jsnum" where
  "num_or x d = (if num_truthy x then x else d)"

definition dq :: char where
  "dq = CHR 0x22"

definition nl :: char where
  "nl = CHR 0x0A"

definition quoted :: "string \<Rightarrow> string" where
  "quoted s = dq # s @ [dq]"

section \<open>Type mapper and table creation\<close>

definition typeMap :: "fieldspec \<Rightarrow> string" where
  "typeMap f =
     (case ftype f of
        TText \<Rightarrow> ''VARCHAR('' @ str_or (limit f) ''50'' @ '')''
      | TDescription \<Rightarrow> ''VARCHAR('' @ str_or (limit f) ''500'' @ '')''
      | TNumber \<Rightarrow>
          (let digits = num_or (parseInt10 (limit f)) (Fin 10)
           in if num_le digits (Fin 9) then ''INTEGER''
              else if num_le digits (Fin 18) then ''BIGINT''
              else ''NUMERIC('' @ number_to_string digits @ '')'')
      | TAmount \<Rightarrow> ''DECIMAL('' @ str_or (limit f) ''10'' @ '', '' @ str_or (scale f) ''2'' @ '')''
      | TYesno \<Rightarrow> ''BOOLEAN''
      | TDatetime \<Rightarrow> ''TIMESTAMP''
      | TDate \<Rightarrow> ''DATE''
      | TEmail \<Rightarrow> ''VARCHAR(255)''
      | TPhone \<Rightarrow> ''VARCHAR('' @ str_or (limit f) ''15'' @ '')''
      | TUrl \<Rightarrow> ''VARCHAR(500)''
      | TPhoto \<Rightarrow> ''BYTEA''
      | TFile \<Rightarrow> ''BYTEA'')"

text \<open>What one round of the loop of \<^verbatim>\<open>createTableSQL\<close> appends to \<^verbatim>\<open>columns\<close>.\<close>

definition column_line :: "string \<times> fieldspec \<Rightarrow> string" where
  "column_line nf =
     (case nf of (name, f) \<Rightarrow>
        quoted name @ '' '' @ typeMap f @
        (if required f then '' NOT NULL'' else []) @
        (if unique f then '' UNIQUE'' else []) @
        [CHR '','', nl])"

text \<open>\<^verbatim>\<open>columns.slice(0, -2)\<close>.\<close>

definition slice_off2 :: "string \<Rightarrow> string" where
  "slice_off2 s = take (length s - 2) s"

definition createTableSQL :: "schema \<Rightarrow> string" where
  "createTableSQL sch =
     (let columns0 = quoted ''id'' @ '' BIGINT GENERATED ALWAYS AS IDENTITY PRIMARY KEY'' @
                     [CHR '','', nl];
          columns1 = foldl (\<lambda>columns nf. columns @ column_line nf) columns0 sch;
          columns2 = (if AUTO_CREATED_AT
                      then columns1 @ quoted ''created_at'' @
                           '' TIMESTAMP NOT NULL DEFAULT CURRENT_TIMESTAMP'' @ [CHR '','', nl]
                      else columns1)
      in ''CREATE TABLE IF NOT EXISTS '' @ quoted TABLE_NAME @ '' ('' @ [nl] @
         slice_off2 columns2 @ [nl] @ '');'')"

section \<open>Validator\<close>

text \<open>The result \<^verbatim>\<open>{ error, field }\<close> of a failed validation; \<^verbatim>\<open>null\<close> is \<open>None\<close>.\<close>

record verror =
  error :: string
  field :: string

definition verr :: "string \<Rightarrow> string \<Rightarrow> verror" where
  "verr msg name = \<lparr>error = msg, field = name\<rparr>"

text \<open>Sequencing of checks: the first one that returns an error ends the function.\<close>

definition or_else :: "'a option \<Rightarrow> 'a option \<Rightarrow> 'a option" where
  "or_else a b = (case a of Some e \<Rightarrow> Some e | None \<Rightarrow> b)"

subsection \<open>File validation\<close>

definition validateFile :: "upload option \<Rightarrow> fieldspec \<Rightarrow> string option" where
  "validateFile file fieldConfig =
     (case file of
        None \<Rightarrow> None
      | Some fl \<Rightarrow>
          (let maxSize = num_mul (num_mul (to_number (str_or (limit fieldConfig) ''10''))
                                   (Fin 1024)) (Fin 1024)
           in if num_gt (Fin (int (file_size fl))) maxSize
              then Some (''File size exceeds '' @ str_or (limit fieldConfig) ''10'' @ ''MB limit'')
              else (case fileConfig fieldConfig of
                      None \<Rightarrow> None
                    | Some fc \<Rightarrow>
                        (case extensions fc of
                           All \<Rightarrow> None
                         | Exts exts \<Rightarrow>
                             (let fileName = toLowerCase (originalname fl);
                                  isValid = list_ex (\<lambda>ext. endsWith fileName (toLowerCase ext)) exts
                              in if \<not> isValid
                                 then Some (''File type not allowed. Allowed types: '' @
                                            join '', '' (map (remove_first CHR ''.'') exts))
                                 else None)))))"

subsection \<open>The regular expressions\<close>

text \<open>\<^verbatim>\<open>/^[^\s@]+@[^\s@]+\.[^\s@]+$/\<close>\<close>

definition email_char :: "char \<Rightarrow> bool" where
  "email_char c = (\<not> is_ws c \<and> c \<noteq> CHR ''@'')"

definition emailRegex :: "string \<Rightarrow> bool" where
  "emailRegex s =
     (let local = takeWhile email_char s;
          rest = dropWhile email_char s
      in local \<noteq> [] \<and> rest \<noteq> [] \<and> hd rest = CHR ''@'' \<and>
         list_all email_char (tl rest) \<and> CHR ''.'' \<in> set (butlast (tl (tl rest))))"

text \<open>\<^verbatim>\<open>/^[+]?[\d\s\-\(\)]{10,15}$/\<close>\<close>

definition phone_char :: "char \<Rightarrow> bool" where
  "phone_char c = (is_digit c \<or> is_ws c \<or> c = CHR ''-'' \<or> c = CHR ''('' \<or> c = CHR '')'')"

definition phoneRegex :: "string \<Rightarrow> bool" where
  "phoneRegex s =
     (let t = (case s of [] \<Rightarrow> [] | c # cs \<Rightarrow> if c = CHR ''+'' then cs else s)
      in 10 \<le> length t \<and> length t \<le> 15 \<and> list_all phone_char t)"

text \<open>\<^verbatim>\<open>/^-?\d+(\.\d+)?$/\<close>\<close>

definition numberRegex :: "string \<Rightarrow> bool" where
  "numberRegex s =
     (let t = (case s of [] \<Rightarrow> [] | c # cs \<Rightarrow> if c = CHR ''-'' then cs else s);
          ip = takeWhile is_digit t;
          rest = dropWhile is_digit t
      in ip \<noteq> [] \<and>
         (rest = [] \<or> (hd rest = CHR ''.'' \<and> tl rest \<noteq> [] \<and> list_all is_digit (tl rest))))"

subsection \<open>The checks of a scalar field\<close>

definition check_email :: "string \<Rightarrow> fieldspec \<Rightarrow> string \<Rightarrow> verror option" where
  "check_email name f strValue =
     (if ftype f = TEmail \<and> \<not> emailRegex strValue
      then Some (verr (name @ '' must be a valid email address'') name)
      else None)"

definition check_url :: "platform \<Rightarrow> string \<Rightarrow> fieldspec \<Rightarrow> string \<Rightarrow> verror option" where
  "check_url P name f strValue =
     (if ftype f = TUrl \<and> \<not> url_parses P strValue
      then Some (verr (name @ '' must be a valid URL'') name)
      else None)"

definition check_phone :: "string \<Rightarrow> fieldspec \<Rightarrow> string \<Rightarrow> verror option" where
  "check_phone name f strValue =
     (if ftype f = TPhone
      then (if \<not> phoneRegex (filter (\<lambda>c. \<not> is_ws c) strValue)
            then Some (verr (name @ '' must be a valid phone number'') name)
            else (let maxLength = num_or (parseInt (limit f)) (Fin 15)
                  in if num_gt (Fin (int (length (filter is_digit strValue)))) maxLength
                     then Some (verr (name @ '' exceeds '' @ number_to_string maxLength @
                                      '' digits'') name)
                     else None))
      else None)"

definition check_text :: "string \<Rightarrow> fieldspec \<Rightarrow> string \<Rightarrow> verror option" where
  "check_text name f strValue =
     (if (ftype f = TText \<or> ftype f = TDescription) \<and> limit f \<noteq> []
      then (let maxLength = parseInt (limit f)
            in if num_gt (Fin (int (length strValue))) maxLength
               then Some (verr (name @ '' exceeds '' @ number_to_string maxLength @
                                '' characters'') name)
               else None)
      else None)"

text \<open>
  The range check of a \<^verbatim>\<open>number\<close> field. The literal \<^verbatim>\<open>9223372036854775807\<close> of the source
  is the double nearest to it.
\<close>

definition check_number_range :: "string \<Rightarrow> fieldspec \<Rightarrow> string \<Rightarrow> verror option" where
  "check_number_range name f strValue =
     (if ftype f = TNumber
      then (let numValue = num_abs (parseInt strValue);
                maxDigits = num_or (parseInt (limit f)) (Fin 10)
            in if num_gt (Fin (int (length (number_to_string numValue)))) maxDigits
               then Some (verr (name @ '' exceeds '' @ number_to_string maxDigits @
                                '' digits'') name)
               else if num_le maxDigits (Fin 9) \<and> num_gt numValue (Fin 2147483647)
               then Some (verr (name @ '' exceeds INTEGER maximum value'') name)
               else if num_le maxDigits (Fin 18) \<and>
                       num_gt numValue (to_double 9223372036854775807 1)
               then Some (verr (name @ '' exceeds BIGINT maximum value'') name)
               else None)
      else None)"

definition check_amount :: "string \<Rightarrow> fieldspec \<Rightarrow> string \<Rightarrow> verror option" where
  "check_amount name f strValue =
     (if ftype f = TAmount
      then (let parts = split_on CHR ''.'' (remove_first CHR ''-'' strValue);
                integerPart = (case parts of [] \<Rightarrow> [] | p # ps \<Rightarrow> p);
                decimalPart = (case parts of p # d # ps \<Rightarrow> d | _ \<Rightarrow> []);
                maxInteger = num_sub (parseInt10 (str_or (limit f) ''10''))
                                     (parseInt10 (str_or (scale f) ''2''));
                maxDecimal = parseInt10 (str_or (scale f) ''2'')
            in if num_gt (Fin (int (length integerPart))) maxInteger
               then Some (verr (name @ '' integer part exceeds '' @
                                number_to_string maxInteger @ '' digits'') name)
               else if num_gt (Fin (int (length decimalPart))) maxDecimal
               then Some (verr (name @ '' decimal part exceeds '' @
                                number_to_string maxDecimal @ '' places'') name)
               else if \<not> allowNegative f \<and> startsWith strValue ''-''
               then Some (verr (name @ '' must be a positive amount'') name)
               else None)
      else None)"

definition check_numeric :: "string \<Rightarrow> fieldspec \<Rightarrow> string \<Rightarrow> verror option" where
  "check_numeric name f strValue =
     (if (ftype f = TNumber \<or> ftype f = TAmount) \<and> strValue \<noteq> []
      then (if \<not> numberRegex strValue
            then Some (verr (name @ '' must be a valid number'') name)
            else if ftype f = TNumber \<and> includes_char strValue CHR ''.''
            then Some (verr (name @ '' must be an integer (no decimals)'') name)
            else if \<not> allowNegative f \<and> startsWith strValue ''-''
            then Some (verr (name @ '' must be a positive number'') name)
            else or_else (check_number_range name f strValue) (check_amount name f strValue))
      else None)"

definition check_date :: "platform \<Rightarrow> string \<Rightarrow> fieldspec \<Rightarrow> string \<Rightarrow> verror option" where
  "check_date P name f strValue =
     (if (ftype f = TDatetime \<or> ftype f = TDate) \<and> strValue \<noteq> [] \<and> \<not> date_parses P strValue
      then Some (verr (name @ '' must be a valid date'') name)
      else None)"

subsection \<open>One round of the loop over the schema\<close>

definition is_file_type :: "ftype \<Rightarrow> bool" where
  "is_file_type t = (t = TPhoto \<or> t = TFile)"

text \<open>\<^verbatim>\<open>value === undefined || value === null || String(value).trim() === ""\<close>\<close>

definition blank :: "jsval option \<Rightarrow> bool" where
  "blank v = (case v of None \<Rightarrow> True | Some JNull \<Rightarrow> True | Some x \<Rightarrow> trim (to_string x) = [])"

text \<open>\<^verbatim>\<open>files[name][0]\<close> for a key that is present: \<^verbatim>\<open>undefined\<close> for an empty array.\<close>

definition first_file :: "upload list \<Rightarrow> upload option" where
  "first_file fs = (case fs of [] \<Rightarrow> None | x # xs \<Rightarrow> Some x)"

text \<open>
  The body of the loop for one field: \<open>Some e\<close> when it returns the error \<open>e\<close>, \<open>None\<close> when
  it goes on to the next field.
\<close>

definition validate_field ::
  "platform \<Rightarrow> string \<Rightarrow> fieldspec \<Rightarrow> body \<Rightarrow> files \<Rightarrow> verror option" where
  "validate_field P name f body files =
     (if is_file_type (ftype f)
      then (if required f \<and> map_of files name = None
            then Some (verr (name @ '' is required'') name)
            else (case map_of files name of
                    None \<Rightarrow> None
                  | Some fs \<Rightarrow>
                      (case validateFile (first_file fs) f of
                         Some fileError \<Rightarrow> Some (verr fileError name)
                       | None \<Rightarrow> None)))
      else (let v = map_of body name
            in if required f \<and> blank v
               then Some (verr (name @ '' is required'') name)
               else if blank v then None
               else (let strValue = trim (to_string (the v))
                     in or_else (check_email name f strValue)
                       (or_else (check_url P name f strValue)
                       (or_else (check_phone name f strValue)
                       (or_else (check_text name f strValue)
                       (or_else (check_numeric name f strValue)
                                (check_date P name f strValue))))))))"

subsection \<open>The whole validator\<close>

text \<open>
  \<^verbatim>\<open>schema[key]\<close> for a key the client chose: an own property of the schema, or a property
  the schema object inherits from \<^verbatim>\<open>Object.prototype\<close>, whose value is truthy and has no
  \<^verbatim>\<open>type\<close>.
\<close>

definition object_prototype_keys :: "string list" where
  "object_prototype_keys =
     [''constructor'', ''__defineGetter__'', ''__defineSetter__'', ''hasOwnProperty'',
      ''__lookupGetter__'', ''__lookupSetter__'', ''isPrototypeOf'', ''propertyIsEnumerable'',
      ''toString'', ''valueOf'', ''__proto__'', ''toLocaleString'']"

definition schema_truthy :: "schema \<Rightarrow> string \<Rightarrow> bool" where
  "schema_truthy sch key = (map_of sch key \<noteq> None \<or> key \<in> set object_prototype_keys)"

definition schema_file_type :: "schema \<Rightarrow> string \<Rightarrow> bool" where
  "schema_file_type sch key =
     (case map_of sch key of None \<Rightarrow> False | Some f \<Rightarrow> ftype f = TPhoto \<or> ftype f = TFile)"

fun validate_fields :: "platform \<Rightarrow> schema \<Rightarrow> body \<Rightarrow> files \<Rightarrow> verror option" where
  "validate_fields P [] body files = None"
| "validate_fields P ((name, f) # rest) body files =
     (case validate_field P name f body files of
        Some e \<Rightarrow> Some e
      | None \<Rightarrow> validate_fields P rest body files)"

fun extra_fields :: "schema \<Rightarrow> string list \<Rightarrow> verror option" where
  "extra_fields sch [] = None"
| "extra_fields sch (key # keys) =
     (if \<not> schema_truthy sch key then Some (verr (''Extra field not allowed: '' @ key) key)
      else extra_fields sch keys)"

fun extra_files :: "schema \<Rightarrow> string list \<Rightarrow> verror option" where
  "extra_files sch [] = None"
| "extra_files sch (key # keys) =
     (if \<not> schema_truthy sch key \<or> \<not> schema_file_type sch key
      then Some (verr (''Extra file not allowed: '' @ key) key)
      else extra_files sch keys)"

definition validate :: "platform \<Rightarrow> schema \<Rightarrow> body \<Rightarrow> files \<Rightarrow> verror option" where
  "validate P sch body files =
     or_else (validate_fields P sch body files)
       (or_else (extra_fields sch (map fst body)) (extra_files sch (map fst files)))"

section \<open>Query builder\<close>

text \<open>
  A bound value of the insert: the buffer of a file, a Number, a boolean, a string, or the
  ISO string \<^verbatim>\<open>new Date(value).toISOString()\<close> of a value that is a valid date (kept as
  the value it is computed from).
\<close>

datatype bound = BBuffer "nat list" | BNum jsnum | BBool bool | BStr string | BIso jsval

text \<open>
  What \<^verbatim>\<open>buildInsertQuery\<close> raises: one of its own \<^verbatim>\<open>{ error, field }\<close> objects, or the
  TypeError of reading \<^verbatim>\<open>.buffer\<close> of \<^verbatim>\<open>undefined\<close>.
\<close>

datatype failure = Thrown verror | TypeError

record query =
  qtext :: string
  qvalues :: "bound list"

text \<open>
  \<^verbatim>\<open>isNaN(new Date(value).getTime())\<close> is false: a string must parse; a number is a time
  value when it is finite and at most \<open>8.64e15\<close> in magnitude; \<^verbatim>\<open>null\<close> and booleans
  convert to the numbers \<open>0\<close> and \<open>1\<close>.
\<close>

definition date_valid :: "platform \<Rightarrow> jsval \<Rightarrow> bool" where
  "date_valid P v =
     (case v of
        JStr s \<Rightarrow> date_parses P s
      | JNum x \<Rightarrow> is_finite x \<and> num_le (num_abs x) (Fin 8640000000000000)
      | _ \<Rightarrow> True)"

text \<open>The conversion of a value that is present, by field type.\<close>

definition coerce :: "platform \<Rightarrow> string \<Rightarrow> fieldspec \<Rightarrow> jsval \<Rightarrow> failure + bound" where
  "coerce P name f v =
     (if ftype f = TNumber
      then (let num = parseFloat (to_string v)
            in if \<not> isInteger num then Inl (Thrown (verr (name @ '' must be an integer'') name))
               else Inr (BNum (num_floor num)))
      else if ftype f = TAmount then Inr (BNum (parseFloat (to_string v)))
      else if ftype f = TYesno
      then Inr (BBool (toLowerCase (to_string v) = ''true'' \<or> v = JStr ''1'' \<or>
                       v = JNum (Fin 1) \<or> v = JStr ''yes'' \<or> v = JStr ''on''))
      else if ftype f = TText \<or> ftype f = TDescription \<or> ftype f = TEmail \<or>
              ftype f = TPhone \<or> ftype f = TUrl
      then Inr (BStr (trim (to_string v)))
      else if \<not> date_valid P v then Inl (Thrown (verr (name @ '' must be a valid date'') name))
      else Inr (BIso v))"

text \<open>
  The body of the loop for one field: an exception, or the column and value it pushes
  (\<open>None\<close> when it pushes nothing).
\<close>

definition build_field ::
  "platform \<Rightarrow> string \<Rightarrow> fieldspec \<Rightarrow> body \<Rightarrow> files \<Rightarrow> failure + (string \<times> bound) option" where
  "build_field P name f body files =
     (if is_file_type (ftype f)
      then (case map_of files name of
              Some fs \<Rightarrow>
                (case first_file fs of
                   None \<Rightarrow> Inl TypeError
                 | Some fl \<Rightarrow> Inr (Some (quoted name, BBuffer (buffer fl))))
            | None \<Rightarrow>
                if required f then Inl (Thrown (verr (name @ '' is required'') name))
                else Inr None)
      else (case map_of body name of
              None \<Rightarrow>
                if required f then Inl (Thrown (verr (name @ '' is required'') name))
                else Inr None
            | Some v \<Rightarrow>
                (case coerce P name f v of
                   Inl e \<Rightarrow> Inl e
                 | Inr b \<Rightarrow> Inr (Some (quoted name, b)))))"

fun build_fields ::
  "platform \<Rightarrow> schema \<Rightarrow> body \<Rightarrow> files \<Rightarrow> string list \<Rightarrow> bound list \<Rightarrow>
   failure + (string list \<times> bound list)" where
  "build_fields P [] body files columns vals = Inr (columns, vals)"
| "build_fields P ((name, f) # rest) body files columns vals =
     (case build_field P name f body files of
        Inl e \<Rightarrow> Inl e
      | Inr None \<Rightarrow> build_fields P rest body files columns vals
      | Inr (Some (c, b)) \<Rightarrow> build_fields P rest body files (columns @ [c]) (vals @ [b]))"

definition placeholders :: "bound list \<Rightarrow> string" where
  "placeholders vals = join '','' (map (\<lambda>i. CHR ''$'' # dec (i + 1)) [0..<length vals])"

definition buildInsertQuery :: "platform \<Rightarrow> schema \<Rightarrow> body \<Rightarrow> files \<Rightarrow> failure + query" where
  "buildInsertQuery P sch body files =
     (case build_fields P sch body files [] [] of
        Inl e \<Rightarrow> Inl e
      | Inr (columns, vals) \<Rightarrow>
          Inr \<lparr>qtext = ''INSERT INTO '' @ quoted TABLE_NAME @ '' ('' @ join '','' columns @
                       '') VALUES ('' @ placeholders vals @ '') RETURNING id, created_at'',
               qvalues = vals\<rparr>)"

section \<open>The numeric shape\<close>

text \<open>
  A string of the numeric shape: an optional minus sign, the digits \<open>ip\<close> and, optionally, a
  decimal point with the digits \<open>dp\<close>.
\<close>

definition numeric_shape :: "string \<Rightarrow> string \<Rightarrow> string \<Rightarrow> string \<Rightarrow> bool" where
  "numeric_shape s sign ip dp =
     ((sign = [] \<or> sign = ''-'') \<and> ip \<noteq> [] \<and> list_all is_digit ip \<and> list_all is_digit dp \<and>
      (s = sign @ ip \<and> dp = [] \<or> s = sign @ ip @ CHR ''.'' # dp \<and> dp \<noteq> []))"

section \<open>Sample inputs\<close>

text \<open>Concrete inputs on which the theorems below are instantiated.\<close>

definition sample_platform :: platform where
  "sample_platform = \<lparr>url_parses = (\<lambda>s. False), date_parses = (\<lambda>s. False)\<rparr>"

definition mk_field :: "ftype \<Rightarrow> string \<Rightarrow> string \<Rightarrow> bool \<Rightarrow> bool \<Rightarrow> fieldspec" where
  "mk_field t lim sc req neg =
     \<lparr>ftype = t, limit = lim, scale = sc, required = req, unique = False,
      allowNegative = neg, fileConfig = None\<rparr>"

definition mk_file_field :: "string \<Rightarrow> bool \<Rightarrow> nat \<Rightarrow> extensions \<Rightarrow> fieldspec" where
  "mk_file_field lim req mb exts =
     \<lparr>ftype = TFile, limit = lim, scale = [], required = req, unique = False,
      allowNegative = False, fileConfig = Some \<lparr>maxSize = mb, extensions = exts\<rparr>\<rparr>"

definition sample_image :: upload where
  "sample_image = \<lparr>file_size = 1000, originalname = ''a.PNG'', buffer = [137, 80, 78, 71]\<rparr>"

text \<open>Scenario A of the specification.\<close>

definition body_A :: body where
  "body_A = [(''name'', JStr ''Alice''), (''phone'', JStr ''9876543210''),
             (''ring_size'', JStr ''120.50''), (''caret'', JStr ''2'')]"

definition files_A :: files where
  "files_A = [(''ss'', [sample_image]), (''aadhar'', [sample_image])]"

text \<open>Scenario B: as A, with \<^verbatim>\<open>ring_size\<close> left out.\<close>

definition body_B :: body where
  "body_B = [(''name'', JStr ''Alice''), (''phone'', JStr ''9876543210''),
             (''caret'', JStr ''2'')]"

definition six_megabytes :: upload where
  "six_megabytes = \<lparr>file_size = 6291456, originalname = ''scan.pdf'', buffer = []\<rparr>"

definition eleven_megabytes :: upload where
  "eleven_megabytes = \<lparr>file_size = 11534336, originalname = ''scan.pdf'', buffer = []\<rparr>"

text \<open>Scenario A with an \<^verbatim>\<open>email\<close> of two spaces.\<close>

definition body_blank_email :: body where
  "body_blank_email =
     [(''name'', JStr ''Alice''), (''phone'', JStr ''9876543210''), (''email'', JStr ''  ''),
      (''ring_size'', JStr ''120.50''), (''caret'', JStr ''2'')]"

section \<open>Evaluation\<close>

text \<open>The defining equations, collected for the evaluation of closed terms by the simplifier.\<close>

lemmas num_ev = round_ratio_def scaled_floor_def mk_double_def bit_length.simps dyadic.simps
  Let_def to_double_def num_neg_def numer_def denom_def is_finite_def num_mul_def num_sub_def
  num_gt_def num_le_def num_abs_def num_sgn_def isInteger_def num_truthy_def num_or_def
  num_floor_def

lemmas str_ev = trim_def trim_start_def is_ws_def is_digit_def toLowerCase_def to_lower_char_def
  upper_chars_def lower_chars_def startsWith_def endsWith_def includes_char_def digit_val_def
  digits_val_def digit_char_def dec.simps str_or_def quoted_def dq_def nl_def

lemmas tostr_ev = lead_zeros.simps int_digits_def cand_value_def cand_floor_def cand_ok_def
  candidates_def cand_dist_def closer_def shortest_def layout_def pos_to_string_def
  number_to_string_def zeros.simps to_string_def

lemmas parse_ev = strip_sign_def with_sign_def radix_digits_def is_radix_digit_def
  radix_digit_val_def radix_val_def parseInt10_def parseInt_def scan_exponent_def
  scan_decimal_def decimal_value_def parseFloat_def radix_literal_def to_number_def

lemmas val_ev = verr_def or_else_def validateFile_def email_char_def emailRegex_def
  phone_char_def phoneRegex_def numberRegex_def check_email_def check_url_def check_phone_def
  check_text_def check_number_range_def check_amount_def check_numeric_def check_date_def
  is_file_type_def blank_def first_file_def validate_field_def object_prototype_keys_def
  schema_truthy_def schema_file_type_def validate_def

lemmas build_ev = date_valid_def coerce_def build_field_def placeholders_def
  buildInsertQuery_def TABLE_NAME_def

lemmas sample_ev = sample_platform_def mk_field_def mk_file_field_def sample_image_def
  body_A_def body_B_def files_A_def schema_def
  six_megabytes_def eleven_megabytes_def body_blank_email_def

section \<open>The first character of a printed number\<close>

lemma dec_hd: "dec n \<noteq> [] \<and> hd (dec n) \<in> set ''0123456789''"
proof (induction n rule: dec.induct)
  case (1 n)
  show ?case
  proof (cases "n < 10")
    case True
    then have "digit_char n \<in> set ''0123456789''"
      unfolding digit_char_def by (intro nth_mem) simp
    with True show ?thesis by (subst dec.simps, subst (2) dec.simps) simp
  next
    case False
    with 1 have "dec (n div 10) \<noteq> [] \<and> hd (dec (n div 10)) \<in> set ''0123456789''" by simp
    with False show ?thesis by (subst dec.simps, subst (2) dec.simps) simp
  qed
qed

lemma layout_hd: "layout k s n \<noteq> [] \<and> hd (layout k s n) \<in> set ''0123456789''"
  using dec_hd [of s] by (auto simp: layout_def Let_def hd_append)

lemma pos_to_string_hd: "pos_to_string x \<noteq> [] \<and> hd (pos_to_string x) \<in> set ''0123456789''"
  using dec_hd layout_hd by (auto simp: pos_to_string_def split: option.splits)

lemma number_to_string_hd:
  "number_to_string x \<noteq> [] \<and> hd (number_to_string x) \<in> set ''0123456789-NI''"
  using pos_to_string_hd [of x] pos_to_string_hd [of "num_abs x"]
  by (cases x) (auto simp: number_to_string_def)

lemma lower_t: "c \<in> set ''0123456789-NI'' \<Longrightarrow> to_lower_char c \<noteq> CHR ''t''"
  by (auto simp: to_lower_char_def upper_chars_def lower_chars_def)

lemma number_to_string_not_true: "toLowerCase (number_to_string x) \<noteq> ''true''"
proof
  assume a: "toLowerCase (number_to_string x) = ''true''"
  obtain c cs where s: "number_to_string x = c # cs" and c: "c \<in> set ''0123456789-NI''"
    using number_to_string_hd [of x] by (cases "number_to_string x") auto
  from a s have "to_lower_char c = CHR ''t''" by (simp add: toLowerCase_def)
  with lower_t [OF c] show False by simp
qed

section \<open>Coercion of a yes/no field\<close>

lemma yesno_value:
  "(toLowerCase (to_string v) = ''true'' \<or> v = JStr ''1'' \<or> v = JNum (Fin 1) \<or>
    v = JStr ''yes'' \<or> v = JStr ''on'') =
   (v = JBool True \<or> v = JNum (Fin 1) \<or>
    (\<exists>s. v = JStr s \<and> (toLowerCase s = ''true'' \<or> s = ''1'' \<or> s = ''yes'' \<or> s = ''on'')))"
  using number_to_string_not_true
  by (cases v)
     (auto simp: to_string_def toLowerCase_def to_lower_char_def upper_chars_def lower_chars_def)

text \<open>
  Claim C3 says that the textual value of a yes/no field is compared without regard to case
  with each of \<^verbatim>\<open>"true"\<close>, \<^verbatim>\<open>"1"\<close>, \<^verbatim>\<open>"yes"\<close> and \<^verbatim>\<open>"on"\<close>, so that \<^verbatim>\<open>"Yes"\<close> is
  true. The query builder binds \<^verbatim>\<open>false\<close> for \<^verbatim>\<open>"Yes"\<close>: only the comparison with
  \<^verbatim>\<open>"true"\<close> lower-cases the value.
\<close>

theorem yesno_case_counterexample:
  "buildInsertQuery sample_platform [(''agree'', mk_field TYesno [] [] False False)]
     [(''agree'', JStr ''Yes'')] [] =
   Inr \<lparr>qtext = ''INSERT INTO '' @ quoted ''Ring'' @ '' ('' @ quoted ''agree'' @
                '') VALUES ($1) RETURNING id, created_at'',
        qvalues = [BBool False]\<rparr>"
  by (simp add: build_ev val_ev sample_ev str_ev tostr_ev)

text \<open>
  Claim C3, amended: for a yes/no field that is present in the record, the query builder
  binds a boolean, which is true if and only if the value is the boolean \<^verbatim>\<open>true\<close>, the
  number \<open>1\<close>, a string that is \<^verbatim>\<open>"true"\<close> up to case, or exactly one of the strings
  \<^verbatim>\<open>"1"\<close>, \<^verbatim>\<open>"yes"\<close> and \<^verbatim>\<open>"on"\<close>.
\<close>

theorem yesno_coercion:
  assumes "ftype f = TYesno" and "map_of body name = Some v"
  shows "build_field P name f body files =
         Inr (Some (quoted name,
           BBool (v = JBool True \<or> v = JNum (Fin 1) \<or>
                  (\<exists>s. v = JStr s \<and>
                     (toLowerCase s = ''true'' \<or> s = ''1'' \<or> s = ''yes'' \<or> s = ''on'')))))"
  using assms by (simp add: build_field_def coerce_def is_file_type_def yesno_value)

theorem yesno_coercion_witness:
  "ftype (mk_field TYesno [] [] False False) = TYesno \<and>
   map_of [(''agree'', JStr ''TRUE'')] ''agree'' = Some (JStr ''TRUE'') \<and>
   build_field sample_platform ''agree'' (mk_field TYesno [] [] False False)
     [(''agree'', JStr ''TRUE'')] [] = Inr (Some (quoted ''agree'', BBool True))"
  using yesno_coercion [of "mk_field TYesno [] [] False False" "[(''agree'', JStr ''TRUE'')]"
      "''agree''" "JStr ''TRUE''" sample_platform "[]"]
  by (simp add: mk_field_def str_ev)

section \<open>Presence of a field\<close>



section \<open>The validator returns the first error\<close>

lemma validate_fields_append:
  "validate_fields P (pre @ post) body files =
   or_else (validate_fields P pre body files) (validate_fields P post body files)"
  by (induction pre) (auto simp: or_else_def split: option.splits)

lemma validate_fields_first:
  "validate_fields P pre body files = None \<Longrightarrow>
   validate_fields P (pre @ (name, f) # post) body files =
   or_else (validate_field P name f body files) (validate_fields P post body files)"
  by (simp add: validate_fields_append or_else_def split: option.splits)

lemma validate_fields_None_iff:
  "validate_fields P sch body files = None \<longleftrightarrow>
   (\<forall>nf \<in> set sch. validate_field P (fst nf) (snd nf) body files = None)"
  by (induction sch) (auto split: option.splits)

lemma validate_first_error:
  "validate_fields P pre body files = None \<Longrightarrow> validate_field P name f body files = Some e \<Longrightarrow>
   validate P (pre @ (name, f) # post) body files = Some e"
  by (simp add: validate_def validate_fields_first or_else_def)

lemma validate_rejects:
  "(name, f) \<in> set sch \<Longrightarrow> validate_field P name f body files \<noteq> None \<Longrightarrow>
   validate P sch body files \<noteq> None"
proof -
  assume m: "(name, f) \<in> set sch" and v: "validate_field P name f body files \<noteq> None"
  have "validate_fields P sch body files \<noteq> None"
    using m v by (induction sch) (auto split: option.splits)
  then show ?thesis by (auto simp: validate_def or_else_def split: option.splits)
qed

lemma validate_single: "validate P [(name, f)] [(name, v)] [] = validate_field P name f [(name, v)] []"
  by (simp add: validate_def or_else_def schema_truthy_def split: option.splits)

section \<open>Required fields\<close>





section \<open>First violation and unknown keys\<close>














section \<open>File size and extension\<close>

lemma num_mul_small:
  "\<bar>a * b\<bar> \<le> 2 ^ 53 \<Longrightarrow> num_mul (Fin a) (Fin b) = Fin (a * b)"
  by (simp add: num_mul_def is_finite_def numer_def denom_def to_double_def)

lemma num_gt_Fin: "num_gt (Fin a) (Fin b) = (b < a)"
  by (simp add: num_gt_def is_finite_def numer_def denom_def)

lemma max_size_bytes:
  assumes "to_number (str_or (limit f) ''10'') = Fin L" and "0 \<le> L" and "L \<le> 2 ^ 33"
  shows "num_mul (num_mul (to_number (str_or (limit f) ''10'')) (Fin 1024)) (Fin 1024) =
         Fin (L * 1048576)"
proof -
  have "\<bar>L * 1024\<bar> \<le> 2 ^ 53" using assms by simp
  then have a: "num_mul (Fin L) (Fin 1024) = Fin (L * 1024)" by (rule num_mul_small)
  have "\<bar>L * 1024 * 1024\<bar> \<le> 2 ^ 53" using assms by simp
  then have "num_mul (Fin (L * 1024)) (Fin 1024) = Fin (L * 1024 * 1024)" by (rule num_mul_small)
  with a assms(1) show ?thesis by simp
qed

lemma validateFile_size:
  assumes "to_number (str_or (limit f) ''10'') = Fin L" and "0 \<le> L" and "L \<le> 2 ^ 33"
  shows "validateFile (Some fl) f =
         (if L * 1048576 < int (file_size fl)
          then Some (''File size exceeds '' @ str_or (limit f) ''10'' @ ''MB limit'')
          else (case fileConfig f of
                  None \<Rightarrow> None
                | Some fc \<Rightarrow>
                    (case extensions fc of
                       All \<Rightarrow> None
                     | Exts exts \<Rightarrow>
                         if list_ex (\<lambda>ext. endsWith (toLowerCase (originalname fl))
                                                     (toLowerCase ext)) exts
                         then None
                         else Some (''File type not allowed. Allowed types: '' @
                                    join '', '' (map (remove_first CHR ''.'') exts)))))"
  by (simp add: validateFile_def max_size_bytes [OF assms] num_gt_Fin Let_def
           split: option.splits extensions.splits)

text \<open>
  Claim C2 says that a file is rejected exactly when its size exceeds the megabyte limit of
  the field's file constraint (\<^verbatim>\<open>fileConfig.maxSize\<close>). \<^verbatim>\<open>validateFile\<close> never reads
  \<^verbatim>\<open>fileConfig.maxSize\<close>: the limit is \<^verbatim>\<open>fieldConfig.limit || 10\<close>. A file of 6 MB passes
  for a field whose file constraint allows 5 MB and whose \<open>limit\<close> is empty.
\<close>

theorem file_size_limit_counterexample:
  "validateFile (Some six_megabytes) (mk_file_field [] True 5 All) = None"
  by (simp add: six_megabytes_def sample_ev validateFile_def num_ev str_ev parse_ev)

text \<open>
  Claim C2, amended: for a file that is present, with \<open>L\<close> the number the field's \<open>limit\<close>
  denotes (\<open>10\<close> when the limit is empty), \<^verbatim>\<open>validateFile\<close> returns the size error exactly
  when the size in bytes exceeds \<open>L * 1048576\<close>; a file within that limit passes when the
  field has no list of extensions (or \<^verbatim>\<open>"all"\<close>) or the lower-cased file name ends with
  one of the allowed extensions; and a record with a file over the limit is rejected by
  the validator whatever its other fields hold.
\<close>

theorem file_size_limit:
  "(to_number (str_or (limit f) ''10'') = Fin L \<and> 0 \<le> L \<and> L \<le> 2 ^ 33
    \<longrightarrow> (validateFile (Some fl) f =
            Some (''File size exceeds '' @ str_or (limit f) ''10'' @ ''MB limit'')) =
         (L * 1048576 < int (file_size fl))) \<and>
   (to_number (str_or (limit f) ''10'') = Fin L \<and> 0 \<le> L \<and> L \<le> 2 ^ 33 \<and>
    int (file_size fl) \<le> L * 1048576 \<and>
    (fileConfig f = None \<or>
     (\<exists>fc. fileConfig f = Some fc \<and>
        (extensions fc = All \<or>
         (\<exists>exts ext. extensions fc = Exts exts \<and> ext \<in> set exts \<and>
            endsWith (toLowerCase (originalname fl)) (toLowerCase ext)))))
    \<longrightarrow> validateFile (Some fl) f = None) \<and>
   (to_number (str_or (limit f) ''10'') = Fin L \<and> 0 \<le> L \<and> L \<le> 2 ^ 33 \<and>
    L * 1048576 < int (file_size fl) \<and> is_file_type (ftype f) \<and> (name, f) \<in> set sch \<and>
    map_of files name = Some (fl # fls)
    \<longrightarrow> validate P sch body files \<noteq> None) \<and>
   (limit f = [] \<longrightarrow> to_number (str_or (limit f) ''10'') = Fin 10)"
proof (intro conjI impI)
  assume a: "to_number (str_or (limit f) ''10'') = Fin L \<and> 0 \<le> L \<and> L \<le> 2 ^ 33"
  then have "validateFile (Some fl) f = (if L * 1048576 < int (file_size fl)
          then Some (''File size exceeds '' @ str_or (limit f) ''10'' @ ''MB limit'')
          else (case fileConfig f of
                  None \<Rightarrow> None
                | Some fc \<Rightarrow>
                    (case extensions fc of
                       All \<Rightarrow> None
                     | Exts exts \<Rightarrow>
                         if list_ex (\<lambda>ext. endsWith (toLowerCase (originalname fl))
                                                     (toLowerCase ext)) exts
                         then None
                         else Some (''File type not allowed. Allowed types: '' @
                                    join '', '' (map (remove_first CHR ''.'') exts)))))"
    by (intro validateFile_size) simp_all
  then show "(validateFile (Some fl) f =
            Some (''File size exceeds '' @ str_or (limit f) ''10'' @ ''MB limit'')) =
         (L * 1048576 < int (file_size fl))"
    by (auto split: option.splits extensions.splits if_splits)
next
  assume a: "to_number (str_or (limit f) ''10'') = Fin L \<and> 0 \<le> L \<and> L \<le> 2 ^ 33 \<and>
    int (file_size fl) \<le> L * 1048576 \<and>
    (fileConfig f = None \<or>
     (\<exists>fc. fileConfig f = Some fc \<and>
        (extensions fc = All \<or>
         (\<exists>exts ext. extensions fc = Exts exts \<and> ext \<in> set exts \<and>
            endsWith (toLowerCase (originalname fl)) (toLowerCase ext)))))"
  then have "validateFile (Some fl) f = (if L * 1048576 < int (file_size fl)
          then Some (''File size exceeds '' @ str_or (limit f) ''10'' @ ''MB limit'')
          else (case fileConfig f of
                  None \<Rightarrow> None
                | Some fc \<Rightarrow>
                    (case extensions fc of
                       All \<Rightarrow> None
                     | Exts exts \<Rightarrow>
                         if list_ex (\<lambda>ext. endsWith (toLowerCase (originalname fl))
                                                     (toLowerCase ext)) exts
                         then None
                         else Some (''File type not allowed. Allowed types: '' @
                                    join '', '' (map (remove_first CHR ''.'') exts)))))"
    by (intro validateFile_size) simp_all
  with a show "validateFile (Some fl) f = None"
    by (auto simp: list_ex_iff split: option.splits extensions.splits)
next
  assume a: "to_number (str_or (limit f) ''10'') = Fin L \<and> 0 \<le> L \<and> L \<le> 2 ^ 33 \<and>
    L * 1048576 < int (file_size fl) \<and> is_file_type (ftype f) \<and> (name, f) \<in> set sch \<and>
    map_of files name = Some (fl # fls)"
  then have "validateFile (Some fl) f =
             Some (''File size exceeds '' @ str_or (limit f) ''10'' @ ''MB limit'')"
    by (subst validateFile_size [of f L]) simp_all
  with a have "validate_field P name f body files \<noteq> None"
    by (simp add: validate_field_def first_file_def)
  with a show "validate P sch body files \<noteq> None"
    by (intro validate_rejects [of name f]) simp_all
next
  assume "limit f = []"
  then show "to_number (str_or (limit f) ''10'') = Fin 10"
    by (simp add: str_ev parse_ev num_ev)
qed

theorem file_size_limit_witness:
  "validateFile (Some eleven_megabytes) (snd (schema ! 4)) =
     Some ''File size exceeds 10MB limit'' \<and>
   validateFile (Some sample_image) (mk_file_field ''2'' True 10 (Exts [''.png''])) =
     None \<and>
   validate sample_platform schema [] [(''ss'', [eleven_megabytes])] \<noteq> None"
proof -
  have L: "to_number (str_or (limit (snd (schema ! 4))) ''10'') = Fin 10"
    using file_size_limit [of "snd (schema ! 4)"] by (simp add: schema_def)
  have a: "validateFile (Some eleven_megabytes) (snd (schema ! 4)) =
     Some ''File size exceeds 10MB limit''"
    using file_size_limit [of "snd (schema ! 4)" 10 eleven_megabytes] L
    by (simp add: schema_def eleven_megabytes_def str_or_def)
  have L2: "to_number (str_or (limit (mk_file_field ''2'' True 10 (Exts [''.png''])))
              ''10'') = Fin 2"
    by (simp add: sample_ev str_ev parse_ev num_ev)
  have b: "validateFile (Some sample_image)
             (mk_file_field ''2'' True 10 (Exts [''.png''])) = None"
    using file_size_limit [of "mk_file_field ''2'' True 10 (Exts [''.png''])" 2
        sample_image] L2
    by (simp add: sample_ev str_ev)
  have c: "validate sample_platform schema [] [(''ss'', [eleven_megabytes])] \<noteq> None"
    using file_size_limit [of "snd (schema ! 4)" 10 eleven_megabytes "''ss''" schema
        "[(''ss'', [eleven_megabytes])]" "[]" sample_platform "[]"] L
    by (simp add: schema_def eleven_megabytes_def is_file_type_def)
  from a b c show ?thesis by simp
qed

section \<open>Columns and values of the insert\<close>













section \<open>Validation and the query builder\<close>

text \<open>
  Claim C9 says that the query builder never raises on a record that passed validation.
  A number field that is not required and is present with an empty string passes validation
  (blank values of fields that are not required are skipped), and the query builder raises
  \<open>must be an integer\<close> for it: \<^verbatim>\<open>parseFloat("")\<close> is NaN.
\<close>

theorem builder_raises_after_validation:
  "validate sample_platform [(''qty'', mk_field TNumber [] [] False False)]
     [(''qty'', JStr [])] [] = None \<and>
   buildInsertQuery sample_platform [(''qty'', mk_field TNumber [] [] False False)]
     [(''qty'', JStr [])] [] =
   Inl (Thrown \<lparr>error = ''qty must be an integer'', field = ''qty''\<rparr>)"
  by (simp add: build_ev val_ev sample_ev str_ev tostr_ev parse_ev num_ev)

section \<open>Digit limit of a number field\<close>

text \<open>
  Claim C5 says that a number whose digit count exceeds the field's limit is rejected. With
  a limit of 19 digits the validator accepts the 22-digit value \<open>10 ^ 21\<close>: the digits are
  counted on \<^verbatim>\<open>String(numValue)\<close>, which is \<^verbatim>\<open>"1e+21"\<close>, of length 5, for this double.
\<close>

theorem number_digit_limit_exceeded:
  "length ''1000000000000000000000'' = 22 \<and>
   validate sample_platform [(''serial'', mk_field TNumber ''19'' [] True False)]
     [(''serial'', JStr ''1000000000000000000000'')] [] = None"
  by (simp add: val_ev sample_ev str_ev tostr_ev parse_ev num_ev)

section \<open>Phone numbers\<close>

lemma plus_not_phone_char: "\<not> phone_char CHR ''+''"
  by (simp add: phone_char_def is_digit_def is_ws_def)

lemma phone_char_set:
  "phone_char c = (is_digit c \<or> is_ws c \<or> c \<in> set ''-()'')"
  by (auto simp: phone_char_def)

lemma phoneRegex_shape:
  "phoneRegex t =
   (\<exists>p b. t = p @ b \<and> (p = [] \<or> p = ''+'') \<and> 10 \<le> length b \<and> length b \<le> 15 \<and>
          list_all (\<lambda>c. is_digit c \<or> is_ws c \<or> c \<in> set ''-()'') b)"
proof
  assume r: "phoneRegex t"
  show "\<exists>p b. t = p @ b \<and> (p = [] \<or> p = ''+'') \<and> 10 \<le> length b \<and> length b \<le> 15 \<and>
          list_all (\<lambda>c. is_digit c \<or> is_ws c \<or> c \<in> set ''-()'') b"
  proof (cases t)
    case Nil
    with r show ?thesis by (simp add: phoneRegex_def)
  next
    case (Cons c cs)
    show ?thesis
    proof (cases "c = CHR ''+''")
      case True
      with r Cons have "10 \<le> length cs \<and> length cs \<le> 15 \<and> list_all phone_char cs"
        by (simp add: phoneRegex_def)
      then have "t = ''+'' @ cs \<and> 10 \<le> length cs \<and> length cs \<le> 15 \<and>
          list_all (\<lambda>c. is_digit c \<or> is_ws c \<or> c \<in> set ''-()'') cs"
        using Cons True by (simp add: phone_char_set list_all_iff)
      then show ?thesis by blast
    next
      case False
      with r Cons have "10 \<le> length t \<and> length t \<le> 15 \<and> list_all phone_char t"
        by (simp add: phoneRegex_def)
      then have "t = [] @ t \<and> 10 \<le> length t \<and> length t \<le> 15 \<and>
          list_all (\<lambda>c. is_digit c \<or> is_ws c \<or> c \<in> set ''-()'') t"
        by (simp add: phone_char_set list_all_iff)
      then show ?thesis by blast
    qed
  qed
next
  assume "\<exists>p b. t = p @ b \<and> (p = [] \<or> p = ''+'') \<and> 10 \<le> length b \<and> length b \<le> 15 \<and>
          list_all (\<lambda>c. is_digit c \<or> is_ws c \<or> c \<in> set ''-()'') b"
  then obtain p b where t: "t = p @ b" and p: "p = [] \<or> p = ''+''"
    and len: "10 \<le> length b" "length b \<le> 15"
    and cls: "list_all (\<lambda>c. is_digit c \<or> is_ws c \<or> c \<in> set ''-()'') b" by blast
  from cls have pc: "list_all phone_char b" by (simp add: phone_char_set list_all_iff)
  show "phoneRegex t"
  proof (cases "p = []")
    case True
    from len obtain c cs where b: "b = c # cs" by (cases b) auto
    with pc have "phone_char c" by simp
    then have "c \<noteq> CHR ''+''" using plus_not_phone_char by auto
    with True t b len pc show ?thesis by (simp add: phoneRegex_def)
  next
    case False
    with p have "p = ''+''" by simp
    with t len pc show ?thesis by (simp add: phoneRegex_def)
  qed
qed

lemma validate_field_phone:
  assumes "ftype f = TPhone" and "map_of body name = Some v" and "v \<noteq> JNull"
    and "trim (to_string v) \<noteq> []"
  shows "validate_field P name f body files = check_phone name f (trim (to_string v))"
proof -
  have "\<not> blank (Some v)" using assms(3,4) by (cases v) (simp_all add: blank_def)
  with assms(1,2) show ?thesis
    by (simp add: validate_field_def is_file_type_def or_else_def check_email_def check_url_def
        check_text_def check_numeric_def check_date_def split: option.splits)
qed

lemma phone_shape_rejected:
  "ftype f = TPhone \<and> map_of body name = Some v \<and> v \<noteq> JNull \<and> trim (to_string v) \<noteq> [] \<and>
    \<not> (\<exists>p b. filter (\<lambda>c. \<not> is_ws c) (trim (to_string v)) = p @ b \<and> (p = [] \<or> p = ''+'') \<and>
           10 \<le> length b \<and> length b \<le> 15 \<and>
           list_all (\<lambda>c. is_digit c \<or> is_ws c \<or> c \<in> set ''-()'') b)
   \<Longrightarrow> validate_field P name f body files =
          Some \<lparr>error = name @ '' must be a valid phone number'', field = name\<rparr>"
proof -
  assume a: "ftype f = TPhone \<and> map_of body name = Some v \<and> v \<noteq> JNull \<and>
    trim (to_string v) \<noteq> [] \<and>
    \<not> (\<exists>p b. filter (\<lambda>c. \<not> is_ws c) (trim (to_string v)) = p @ b \<and> (p = [] \<or> p = ''+'') \<and>
           10 \<le> length b \<and> length b \<le> 15 \<and>
           list_all (\<lambda>c. is_digit c \<or> is_ws c \<or> c \<in> set ''-()'') b)"
  then have "\<not> phoneRegex (filter (\<lambda>c. \<not> is_ws c) (trim (to_string v)))"
    by (simp only: phoneRegex_shape not_False_eq_True)
  with a show ?thesis
    by (simp add: validate_field_phone check_phone_def verr_def)
qed

lemma phone_shape_accepted:
  "ftype f = TPhone \<and> map_of body name = Some v \<and> v \<noteq> JNull \<and> trim (to_string v) \<noteq> [] \<and>
    (\<exists>p b. filter (\<lambda>c. \<not> is_ws c) (trim (to_string v)) = p @ b \<and> (p = [] \<or> p = ''+'') \<and>
           10 \<le> length b \<and> length b \<le> 15 \<and>
           list_all (\<lambda>c. is_digit c \<or> is_ws c \<or> c \<in> set ''-()'') b) \<and>
    num_or (parseInt (limit f)) (Fin 15) = Fin L
   \<Longrightarrow> validate_field P name f body files =
          (if L < int (length (filter is_digit (trim (to_string v))))
           then Some \<lparr>error = name @ '' exceeds '' @ number_to_string (Fin L) @ '' digits'',
                      field = name\<rparr>
           else None)"
proof -
  assume a: "ftype f = TPhone \<and> map_of body name = Some v \<and> v \<noteq> JNull \<and>
    trim (to_string v) \<noteq> [] \<and>
    (\<exists>p b. filter (\<lambda>c. \<not> is_ws c) (trim (to_string v)) = p @ b \<and> (p = [] \<or> p = ''+'') \<and>
           10 \<le> length b \<and> length b \<le> 15 \<and>
           list_all (\<lambda>c. is_digit c \<or> is_ws c \<or> c \<in> set ''-()'') b) \<and>
    num_or (parseInt (limit f)) (Fin 15) = Fin L"
  then have "phoneRegex (filter (\<lambda>c. \<not> is_ws c) (trim (to_string v)))"
    by (simp only: phoneRegex_shape)
  with a show ?thesis
    by (simp add: validate_field_phone check_phone_def verr_def num_gt_Fin)
qed

text \<open>
  Claim C7 says that the shape is accepted only when the value, with white space removed,
  has 10 to 15 characters, an optional leading \<open>+\<close> among them. The regular expression of
  the validator puts the \<open>+\<close> before the 10 to 15 characters: a \<open>+\<close> with 15 digits, 16
  characters, is accepted, and a \<open>+\<close> with 9 digits, 10 characters, is rejected.
\<close>

theorem phone_plus_counterexample:
  "length ''+123456789012345'' = 16 \<and>
   validate sample_platform [(''phone'', mk_field TPhone [] [] True False)]
     [(''phone'', JStr ''+123456789012345'')] [] = None \<and>
   length ''+123456789'' = 10 \<and>
   validate sample_platform [(''phone'', mk_field TPhone [] [] True False)]
     [(''phone'', JStr ''+123456789'')] [] =
     Some \<lparr>error = ''phone must be a valid phone number'', field = ''phone''\<rparr>"
  by (simp add: sample_ev val_ev num_ev str_ev tostr_ev parse_ev)

text \<open>
  Claim C7, amended: for a phone field with a value that is present, the shape is accepted
  exactly when the value, with all white space removed, is an optional leading \<open>+\<close>
  followed by 10 to 15 characters that are digits, hyphens or parentheses, the \<open>+\<close> not
  being counted among the 10 to 15; otherwise the error is
  \<open>name must be a valid phone number\<close>. A value of the right shape is rejected with
  \<open>name exceeds L digits\<close> when it holds more digits than the field's digit limit \<open>L\<close>,
  which is 15 when the field sets none. Either error is the result of the whole validator
  when the fields declared before the phone field pass, and a value that passes both checks
  is accepted by the validator of a schema with that field alone.
\<close>

theorem phone_validation:
  "(ftype f = TPhone \<and> map_of body name = Some v \<and> v \<noteq> JNull \<and> trim (to_string v) \<noteq> [] \<and>
    \<not> (\<exists>p b. filter (\<lambda>c. \<not> is_ws c) (trim (to_string v)) = p @ b \<and> (p = [] \<or> p = ''+'') \<and>
           10 \<le> length b \<and> length b \<le> 15 \<and>
           list_all (\<lambda>c. is_digit c \<or> is_ws c \<or> c \<in> set ''-()'') b)
    \<longrightarrow> validate_field P name f body files =
          Some \<lparr>error = name @ '' must be a valid phone number'', field = name\<rparr> \<and>
        (validate_fields P pre body files = None
         \<longrightarrow> validate P (pre @ (name, f) # post) body files =
               Some \<lparr>error = name @ '' must be a valid phone number'', field = name\<rparr>)) \<and>
   (ftype f = TPhone \<and> map_of body name = Some v \<and> v \<noteq> JNull \<and> trim (to_string v) \<noteq> [] \<and>
    (\<exists>p b. filter (\<lambda>c. \<not> is_ws c) (trim (to_string v)) = p @ b \<and> (p = [] \<or> p = ''+'') \<and>
           10 \<le> length b \<and> length b \<le> 15 \<and>
           list_all (\<lambda>c. is_digit c \<or> is_ws c \<or> c \<in> set ''-()'') b) \<and>
    num_or (parseInt (limit f)) (Fin 15) = Fin L
    \<longrightarrow> validate_field P name f body files =
          (if L < int (length (filter is_digit (trim (to_string v))))
           then Some \<lparr>error = name @ '' exceeds '' @ number_to_string (Fin L) @ '' digits'',
                      field = name\<rparr>
           else None) \<and>
        (validate_fields P pre body files = None \<and>
         L < int (length (filter is_digit (trim (to_string v))))
         \<longrightarrow> validate P (pre @ (name, f) # post) body files =
               Some \<lparr>error = name @ '' exceeds '' @ number_to_string (Fin L) @ '' digits'',
                     field = name\<rparr>) \<and>
        (\<not> L < int (length (filter is_digit (trim (to_string v))))
         \<longrightarrow> validate P [(name, f)] [(name, v)] [] = None)) \<and>
   (limit f = [] \<longrightarrow> num_or (parseInt (limit f)) (Fin 15) = Fin 15)"
proof (intro conjI impI)
  assume a: "ftype f = TPhone \<and> map_of body name = Some v \<and> v \<noteq> JNull \<and>
    trim (to_string v) \<noteq> [] \<and>
    \<not> (\<exists>p b. filter (\<lambda>c. \<not> is_ws c) (trim (to_string v)) = p @ b \<and> (p = [] \<or> p = ''+'') \<and>
           10 \<le> length b \<and> length b \<le> 15 \<and>
           list_all (\<lambda>c. is_digit c \<or> is_ws c \<or> c \<in> set ''-()'') b)"
  then show "validate_field P name f body files =
          Some \<lparr>error = name @ '' must be a valid phone number'', field = name\<rparr>"
    by (rule phone_shape_rejected)
next
  assume a: "ftype f = TPhone \<and> map_of body name = Some v \<and> v \<noteq> JNull \<and>
    trim (to_string v) \<noteq> [] \<and>
    \<not> (\<exists>p b. filter (\<lambda>c. \<not> is_ws c) (trim (to_string v)) = p @ b \<and> (p = [] \<or> p = ''+'') \<and>
           10 \<le> length b \<and> length b \<le> 15 \<and>
           list_all (\<lambda>c. is_digit c \<or> is_ws c \<or> c \<in> set ''-()'') b)"
    and p: "validate_fields P pre body files = None"
  from a have "validate_field P name f body files =
          Some \<lparr>error = name @ '' must be a valid phone number'', field = name\<rparr>"
    by (rule phone_shape_rejected)
  with p show "validate P (pre @ (name, f) # post) body files =
          Some \<lparr>error = name @ '' must be a valid phone number'', field = name\<rparr>"
    by (rule validate_first_error)
next
  assume a: "ftype f = TPhone \<and> map_of body name = Some v \<and> v \<noteq> JNull \<and>
    trim (to_string v) \<noteq> [] \<and>
    (\<exists>p b. filter (\<lambda>c. \<not> is_ws c) (trim (to_string v)) = p @ b \<and> (p = [] \<or> p = ''+'') \<and>
           10 \<le> length b \<and> length b \<le> 15 \<and>
           list_all (\<lambda>c. is_digit c \<or> is_ws c \<or> c \<in> set ''-()'') b) \<and>
    num_or (parseInt (limit f)) (Fin 15) = Fin L"
  then show "validate_field P name f body files =
          (if L < int (length (filter is_digit (trim (to_string v))))
           then Some \<lparr>error = name @ '' exceeds '' @ number_to_string (Fin L) @ '' digits'',
                      field = name\<rparr>
           else None)"
    by (rule phone_shape_accepted)
next
  assume a: "ftype f = TPhone \<and> map_of body name = Some v \<and> v \<noteq> JNull \<and>
    trim (to_string v) \<noteq> [] \<and>
    (\<exists>p b. filter (\<lambda>c. \<not> is_ws c) (trim (to_string v)) = p @ b \<and> (p = [] \<or> p = ''+'') \<and>
           10 \<le> length b \<and> length b \<le> 15 \<and>
           list_all (\<lambda>c. is_digit c \<or> is_ws c \<or> c \<in> set ''-()'') b) \<and>
    num_or (parseInt (limit f)) (Fin 15) = Fin L"
    and p: "validate_fields P pre body files = None \<and>
         L < int (length (filter is_digit (trim (to_string v))))"
  from phone_shape_accepted [OF a, of P files] p
  have "validate_field P name f body files =
          Some \<lparr>error = name @ '' exceeds '' @ number_to_string (Fin L) @ '' digits'',
                     field = name\<rparr>"
    by simp
  with p show "validate P (pre @ (name, f) # post) body files =
          Some \<lparr>error = name @ '' exceeds '' @ number_to_string (Fin L) @ '' digits'',
                     field = name\<rparr>"
    by (simp add: validate_first_error)
next
  assume a: "ftype f = TPhone \<and> map_of body name = Some v \<and> v \<noteq> JNull \<and>
    trim (to_string v) \<noteq> [] \<and>
    (\<exists>p b. filter (\<lambda>c. \<not> is_ws c) (trim (to_string v)) = p @ b \<and> (p = [] \<or> p = ''+'') \<and>
           10 \<le> length b \<and> length b \<le> 15 \<and>
           list_all (\<lambda>c. is_digit c \<or> is_ws c \<or> c \<in> set ''-()'') b) \<and>
    num_or (parseInt (limit f)) (Fin 15) = Fin L"
    and p: "\<not> L < int (length (filter is_digit (trim (to_string v))))"
  from a have "ftype f = TPhone \<and> map_of [(name, v)] name = Some v \<and> v \<noteq> JNull \<and>
    trim (to_string v) \<noteq> [] \<and>
    (\<exists>p b. filter (\<lambda>c. \<not> is_ws c) (trim (to_string v)) = p @ b \<and> (p = [] \<or> p = ''+'') \<and>
           10 \<le> length b \<and> length b \<le> 15 \<and>
           list_all (\<lambda>c. is_digit c \<or> is_ws c \<or> c \<in> set ''-()'') b) \<and>
    num_or (parseInt (limit f)) (Fin 15) = Fin L"
    by simp
  from phone_shape_accepted [OF this, of P "[]"] p
  show "validate P [(name, f)] [(name, v)] [] = None"
    by (simp add: validate_single)
next
  assume "limit f = []"
  then show "num_or (parseInt (limit f)) (Fin 15) = Fin 15"
    by (simp add: str_ev parse_ev num_ev)
qed

lemma scenario_D_shape:
  "\<not> (\<exists>p b. ''12345'' = p @ b \<and> (p = [] \<or> p = ''+'') \<and> 10 \<le> length b \<and> length b \<le> 15 \<and>
           list_all (\<lambda>c. is_digit c \<or> is_ws c \<or> c \<in> set ''-()'') b)"
  by auto

lemma phone_sample_shape:
  "\<exists>p b. ''+91(98765)43-210'' = p @ b \<and> (p = [] \<or> p = ''+'') \<and> 10 \<le> length b \<and>
         length b \<le> 15 \<and> list_all (\<lambda>c. is_digit c \<or> is_ws c \<or> c \<in> set ''-()'') b"
  by (rule exI [of _ "''+''"], rule exI [of _ "''91(98765)43-210''"]) (simp add: is_digit_def)

lemma scenario_D_prefix:
  "validate_fields sample_platform (take 1 schema) (body_A[1 := (''phone'', v)]) files_A = None"
  by (simp add: sample_ev val_ev num_ev str_ev tostr_ev parse_ev)

theorem phone_validation_witness:
  "validate sample_platform schema (body_A[1 := (''phone'', JStr ''12345'')]) files_A =
     Some \<lparr>error = ''phone must be a valid phone number'', field = ''phone''\<rparr> \<and>
   validate sample_platform schema (body_A[1 := (''phone'', JStr '' +91 (98765) 43-210 '')])
     files_A = Some \<lparr>error = ''phone exceeds 10 digits'', field = ''phone''\<rparr> \<and>
   validate sample_platform [(''phone'', mk_field TPhone [] [] True False)]
     [(''phone'', JStr '' +91 (98765) 43-210 '')] [] = None"
proof -
  have L: "num_or (parseInt (limit (snd (schema ! 1)))) (Fin 15) = Fin 10"
    by (simp add: schema_def str_ev parse_ev num_ev)
  have L': "num_or (parseInt (limit (mk_field TPhone [] [] True False))) (Fin 15) = Fin 15"
    using phone_validation [of "mk_field TPhone [] [] True False"] by (simp add: mk_field_def)
  have t: "trim '' +91 (98765) 43-210 '' = ''+91 (98765) 43-210''"
    by (simp add: trim_def is_ws_def)
  have s: "schema = take 1 schema @ (''phone'', snd (schema ! 1)) # drop 2 schema"
    by (simp add: schema_def)
  have "validate sample_platform (take 1 schema @ (''phone'', snd (schema ! 1)) # drop 2 schema)
          (body_A[1 := (''phone'', JStr ''12345'')]) files_A =
     Some \<lparr>error = ''phone must be a valid phone number'', field = ''phone''\<rparr>"
    using phone_validation [of "snd (schema ! 1)" "body_A[1 := (''phone'', JStr ''12345'')]"
        "''phone''" "JStr ''12345''" sample_platform files_A "take 1 schema" "drop 2 schema"]
        scenario_D_shape scenario_D_prefix [of "JStr ''12345''"]
    by (simp add: schema_def body_A_def to_string_def trim_def is_ws_def)
  then have a: "validate sample_platform schema (body_A[1 := (''phone'', JStr ''12345'')])
     files_A = Some \<lparr>error = ''phone must be a valid phone number'', field = ''phone''\<rparr>"
    using s by simp
  have "validate sample_platform (take 1 schema @ (''phone'', snd (schema ! 1)) # drop 2 schema)
          (body_A[1 := (''phone'', JStr '' +91 (98765) 43-210 '')]) files_A =
     Some \<lparr>error = ''phone exceeds 10 digits'', field = ''phone''\<rparr>"
    using phone_validation [of "snd (schema ! 1)"
        "body_A[1 := (''phone'', JStr '' +91 (98765) 43-210 '')]"
        "''phone''" "JStr '' +91 (98765) 43-210 ''" sample_platform files_A "take 1 schema"
        "drop 2 schema" 10] L phone_sample_shape
        scenario_D_prefix [of "JStr '' +91 (98765) 43-210 ''"]
    by (simp add: schema_def body_A_def to_string_def t is_ws_def is_digit_def tostr_ev num_ev
        dec.simps digit_char_def)
  then have b: "validate sample_platform schema
     (body_A[1 := (''phone'', JStr '' +91 (98765) 43-210 '')]) files_A =
     Some \<lparr>error = ''phone exceeds 10 digits'', field = ''phone''\<rparr>"
    using s by simp
  have c: "validate sample_platform [(''phone'', mk_field TPhone [] [] True False)]
     [(''phone'', JStr '' +91 (98765) 43-210 '')] [] = None"
    using phone_validation [of "mk_field TPhone [] [] True False"
        "[(''phone'', JStr '' +91 (98765) 43-210 '')]"
        "''phone''" "JStr '' +91 (98765) 43-210 ''" sample_platform "[]" "[]" "[]" 15]
        L' phone_sample_shape
    by (simp add: mk_field_def to_string_def t is_ws_def is_digit_def)
  from a b c show ?thesis by simp
qed

section \<open>Amounts\<close>

lemma remove_first_absent: "c \<notin> set xs \<Longrightarrow> remove_first c xs = xs"
  by (induction xs) auto

lemma split_on_absent: "c \<notin> set xs \<Longrightarrow> split_on c xs = [xs]"
  by (induction xs) auto

lemma split_on_first: "c \<notin> set xs \<Longrightarrow> split_on c (xs @ c # ys) = xs # split_on c ys"
  by (induction xs) auto

lemma dot_not_digit: "\<not> is_digit CHR ''.''"
  by (simp add: is_digit_def)

lemma minus_not_digit: "\<not> is_digit CHR ''-''"
  by (simp add: is_digit_def)

lemma digits_no_dot: "list_all is_digit xs \<Longrightarrow> CHR ''.'' \<notin> set xs"
  using dot_not_digit by (auto simp: list_all_iff)

lemma digits_no_minus: "list_all is_digit xs \<Longrightarrow> CHR ''-'' \<notin> set xs"
  using minus_not_digit by (auto simp: list_all_iff)

lemma takeWhile_digits:
  "list_all is_digit ip \<Longrightarrow> takeWhile is_digit (ip @ CHR ''.'' # dp) = ip"
  by (induction ip) (auto simp: is_digit_def)

lemma dropWhile_digits:
  "list_all is_digit ip \<Longrightarrow> dropWhile is_digit (ip @ CHR ''.'' # dp) = CHR ''.'' # dp"
  by (induction ip) (auto simp: is_digit_def)

lemma takeWhile_all_digits: "list_all is_digit ip \<Longrightarrow> takeWhile is_digit ip = ip"
  by (induction ip) auto

lemma dropWhile_all_digits: "list_all is_digit ip \<Longrightarrow> dropWhile is_digit ip = []"
  by (induction ip) auto

lemma shape_strip:
  assumes "numeric_shape s sign ip dp"
  shows "(case s of [] \<Rightarrow> [] | c # cs \<Rightarrow> if c = CHR ''-'' then cs else s) =
         (if dp = [] then ip else ip @ CHR ''.'' # dp)"
proof -
  obtain d ds where ip: "ip = d # ds" and d: "is_digit d"
    using assms by (cases ip) (auto simp: numeric_shape_def)
  then have "d \<noteq> CHR ''-''" by (auto simp: is_digit_def)
  with assms ip show ?thesis by (auto simp: numeric_shape_def)
qed

lemma shape_numberRegex:
  assumes "numeric_shape s sign ip dp"
  shows "numberRegex s"
proof (cases "dp = []")
  case True
  with assms have "ip \<noteq> []" "list_all is_digit ip" by (simp_all add: numeric_shape_def)
  with True show ?thesis
    by (simp add: numberRegex_def shape_strip [OF assms] list_all_iff takeWhile_all_digits
        dropWhile_all_digits)
next
  case False
  with assms have "ip \<noteq> []" "list_all is_digit ip" "list_all is_digit dp"
    by (simp_all add: numeric_shape_def)
  with False show ?thesis
    by (simp add: numberRegex_def shape_strip [OF assms] takeWhile_digits dropWhile_digits)
qed

lemma shape_startsWith:
  assumes "numeric_shape s sign ip dp"
  shows "startsWith s ''-'' = (sign = ''-'')"
proof -
  obtain d ds where ip: "ip = d # ds" and d: "is_digit d"
    using assms by (cases ip) (auto simp: numeric_shape_def)
  then have "d \<noteq> CHR ''-''" by (auto simp: is_digit_def)
  with assms ip show ?thesis by (auto simp: numeric_shape_def startsWith_def)
qed

lemma shape_remove_sign:
  assumes "numeric_shape s sign ip dp"
  shows "remove_first CHR ''-'' s = (if dp = [] then ip else ip @ CHR ''.'' # dp)"
proof -
  have "CHR ''-'' \<notin> set (ip @ CHR ''.'' # dp)" "CHR ''-'' \<notin> set ip"
    using assms by (auto simp: numeric_shape_def dest: digits_no_minus)
  then have "remove_first CHR ''-'' (ip @ CHR ''.'' # dp) = ip @ CHR ''.'' # dp"
    and "remove_first CHR ''-'' ip = ip"
    by (simp_all add: remove_first_absent)
  with assms show ?thesis by (auto simp: numeric_shape_def)
qed

lemma shape_split:
  assumes "numeric_shape s sign ip dp"
  shows "split_on CHR ''.'' (remove_first CHR ''-'' s) = (if dp = [] then [ip] else [ip, dp])"
proof -
  have "CHR ''.'' \<notin> set ip" "CHR ''.'' \<notin> set dp"
    using assms by (auto simp: numeric_shape_def dest: digits_no_dot)
  then show ?thesis
    by (simp add: shape_remove_sign [OF assms] split_on_absent split_on_first)
qed

lemma num_sub_small:
  "\<bar>a - b\<bar> \<le> 2 ^ 53 \<Longrightarrow> num_sub (Fin a) (Fin b) = Fin (a - b)"
  by (simp add: num_sub_def is_finite_def numer_def denom_def to_double_def)

lemma check_amount_shape:
  assumes "ftype f = TAmount" and "numeric_shape s sign ip dp"
    and "parseInt10 (str_or (limit f) ''10'') = Fin L"
    and "parseInt10 (str_or (scale f) ''2'') = Fin S" and "\<bar>L - S\<bar> \<le> 2 ^ 53"
  shows "check_amount name f s =
         (if L - S < int (length ip)
          then Some \<lparr>error = name @ '' integer part exceeds '' @ number_to_string (Fin (L - S)) @
                             '' digits'', field = name\<rparr>
          else if S < int (length dp)
          then Some \<lparr>error = name @ '' decimal part exceeds '' @ number_to_string (Fin S) @
                             '' places'', field = name\<rparr>
          else if \<not> allowNegative f \<and> sign = ''-''
          then Some \<lparr>error = name @ '' must be a positive amount'', field = name\<rparr>
          else None)"
  using assms
  by (simp add: check_amount_def shape_split [OF assms(2)] shape_startsWith [OF assms(2)]
      num_sub_small num_gt_Fin verr_def Let_def)

lemma validate_field_amount:
  assumes "ftype f = TAmount" and "map_of body name = Some v" and "v \<noteq> JNull"
    and "numeric_shape (trim (to_string v)) sign ip dp"
    and "parseInt10 (str_or (limit f) ''10'') = Fin L"
    and "parseInt10 (str_or (scale f) ''2'') = Fin S" and "\<bar>L - S\<bar> \<le> 2 ^ 53"
  shows "validate_field P name f body files =
         (if sign = ''-'' \<and> \<not> allowNegative f
          then Some \<lparr>error = name @ '' must be a positive number'', field = name\<rparr>
          else if L - S < int (length ip)
          then Some \<lparr>error = name @ '' integer part exceeds '' @ number_to_string (Fin (L - S)) @
                             '' digits'', field = name\<rparr>
          else if S < int (length dp)
          then Some \<lparr>error = name @ '' decimal part exceeds '' @ number_to_string (Fin S) @
                             '' places'', field = name\<rparr>
          else None)"
proof -
  have ne: "trim (to_string v) \<noteq> []"
    using assms(4) by (auto simp: numeric_shape_def)
  then have nb: "\<not> blank (Some v)" using assms(3) by (cases v) (simp_all add: blank_def)
  have rx: "numberRegex (trim (to_string v))" using assms(4) by (rule shape_numberRegex)
  have "validate_field P name f body files = check_numeric name f (trim (to_string v))"
    using assms(1,2) nb
    by (simp add: validate_field_def is_file_type_def or_else_def check_email_def check_url_def
        check_text_def check_phone_def check_date_def split: option.splits)
  also have "\<dots> = (if sign = ''-'' \<and> \<not> allowNegative f
          then Some \<lparr>error = name @ '' must be a positive number'', field = name\<rparr>
          else check_amount name f (trim (to_string v)))"
    using assms(1) ne rx
    by (auto simp: check_numeric_def shape_startsWith [OF assms(4)] check_number_range_def
        or_else_def verr_def)
  finally show ?thesis
    by (simp add: check_amount_shape [OF assms(1,4,5,6,7)])
qed

text \<open>
  Claim C6: for an amount field with a value of the numeric shape (an optional minus sign,
  digits, and optionally a decimal point with digits), a leading minus is rejected unless
  the field allows negative values; then the value is rejected when the integer part has
  more digits than the limit less the scale, or the fractional part has more digits than the
  scale. The limit is 10 and the scale 2 where the field sets none. The error is the result
  of the whole validator when the fields declared before the amount field pass, and the
  validator of a schema with that field alone returns the error, or accepts the value when
  none of the three checks fails.
\<close>

theorem amount_validation:
  "(ftype f = TAmount \<and> map_of body name = Some v \<and> v \<noteq> JNull \<and>
    (sign = [] \<or> sign = ''-'') \<and> ip \<noteq> [] \<and> list_all is_digit ip \<and> list_all is_digit dp \<and>
    (trim (to_string v) = sign @ ip \<and> dp = [] \<or>
     trim (to_string v) = sign @ ip @ CHR ''.'' # dp \<and> dp \<noteq> []) \<and>
    parseInt10 (str_or (limit f) ''10'') = Fin L \<and>
    parseInt10 (str_or (scale f) ''2'') = Fin S \<and> \<bar>L - S\<bar> \<le> 2 ^ 53
    \<longrightarrow> (let r = (if sign = ''-'' \<and> \<not> allowNegative f
                    then Some \<lparr>error = name @ '' must be a positive number'', field = name\<rparr>
                    else if L - S < int (length ip)
                    then Some \<lparr>error = name @ '' integer part exceeds '' @
                                       number_to_string (Fin (L - S)) @ '' digits'',
                               field = name\<rparr>
                    else if S < int (length dp)
                    then Some \<lparr>error = name @ '' decimal part exceeds '' @
                                       number_to_string (Fin S) @ '' places'', field = name\<rparr>
                    else None)
          in validate_field P name f body files = r \<and>
             (validate_fields P pre body files = None \<and> r \<noteq> None
              \<longrightarrow> validate P (pre @ (name, f) # post) body files = r) \<and>
             validate P [(name, f)] [(name, v)] [] = r)) \<and>
   (limit f = [] \<longrightarrow> parseInt10 (str_or (limit f) ''10'') = Fin 10) \<and>
   (scale f = [] \<longrightarrow> parseInt10 (str_or (scale f) ''2'') = Fin 2)"
proof (intro conjI impI)
  let ?r = "if sign = ''-'' \<and> \<not> allowNegative f
            then Some \<lparr>error = name @ '' must be a positive number'', field = name\<rparr>
            else if L - S < int (length ip)
            then Some \<lparr>error = name @ '' integer part exceeds '' @
                               number_to_string (Fin (L - S)) @ '' digits'', field = name\<rparr>
            else if S < int (length dp)
            then Some \<lparr>error = name @ '' decimal part exceeds '' @ number_to_string (Fin S) @
                               '' places'', field = name\<rparr>
            else None"
  assume a: "ftype f = TAmount \<and> map_of body name = Some v \<and> v \<noteq> JNull \<and>
    (sign = [] \<or> sign = ''-'') \<and> ip \<noteq> [] \<and> list_all is_digit ip \<and> list_all is_digit dp \<and>
    (trim (to_string v) = sign @ ip \<and> dp = [] \<or>
     trim (to_string v) = sign @ ip @ CHR ''.'' # dp \<and> dp \<noteq> []) \<and>
    parseInt10 (str_or (limit f) ''10'') = Fin L \<and>
    parseInt10 (str_or (scale f) ''2'') = Fin S \<and> \<bar>L - S\<bar> \<le> 2 ^ 53"
  then have sh: "numeric_shape (trim (to_string v)) sign ip dp"
    by (simp add: numeric_shape_def)
  from a sh have 1: "validate_field P name f body files = ?r"
    by (intro validate_field_amount) simp_all
  from a sh have 2: "validate_field P name f [(name, v)] [] = ?r"
    by (intro validate_field_amount) simp_all
  have 3: "validate P (pre @ (name, f) # post) body files = ?r"
    if h: "validate_fields P pre body files = None \<and> ?r \<noteq> None"
  proof -
    from h obtain e where e: "?r = Some e" by blast
    from 1 e have "validate_field P name f body files = Some e" by (rule trans)
    with h have "validate P (pre @ (name, f) # post) body files = Some e"
      by (simp only: validate_first_error)
    then show ?thesis by (simp only: e)
  qed
  have 4: "validate P [(name, f)] [(name, v)] [] = ?r"
    by (simp only: validate_single 2)
  from 1 3 4 show "let r = ?r
          in validate_field P name f body files = r \<and>
             (validate_fields P pre body files = None \<and> r \<noteq> None
              \<longrightarrow> validate P (pre @ (name, f) # post) body files = r) \<and>
             validate P [(name, f)] [(name, v)] [] = r"
    unfolding Let_def by blast
next
  assume "limit f = []"
  then show "parseInt10 (str_or (limit f) ''10'') = Fin 10"
    by (simp add: str_ev parse_ev num_ev)
next
  assume "scale f = []"
  then show "parseInt10 (str_or (scale f) ''2'') = Fin 2"
    by (simp add: str_ev parse_ev num_ev)
qed

lemma amount_prefix:
  "validate_fields sample_platform (take 3 schema) (body_A[2 := (''ring_size'', v)]) files_A =
   None"
  by (simp add: sample_ev val_ev num_ev str_ev tostr_ev parse_ev)

theorem amount_validation_witness:
  "validate sample_platform [(''ring_size'', snd (schema ! 3))]
     [(''ring_size'', JStr ''120.50'')] [] = None \<and>
   validate sample_platform schema (body_A[2 := (''ring_size'', JStr ''123456789.5'')]) files_A =
     Some \<lparr>error = ''ring_size integer part exceeds 8 digits'', field = ''ring_size''\<rparr> \<and>
   validate sample_platform schema (body_A[2 := (''ring_size'', JStr ''-1.505'')]) files_A =
     Some \<lparr>error = ''ring_size decimal part exceeds 2 places'', field = ''ring_size''\<rparr> \<and>
   validate sample_platform [(''price'', mk_field TAmount [] [] True False)]
     [(''price'', JStr ''-7'')] [] =
     Some \<lparr>error = ''price must be a positive number'', field = ''price''\<rparr>"
proof -
  have L: "parseInt10 (str_or (limit (snd (schema ! 3))) ''10'') = Fin 10"
    and S: "parseInt10 (str_or (scale (snd (schema ! 3))) ''2'') = Fin 2"
    by (simp_all add: schema_def str_ev parse_ev num_ev)
  have L': "parseInt10 (str_or (limit (mk_field TAmount [] [] True False)) ''10'') = Fin 10"
    and S': "parseInt10 (str_or (scale (mk_field TAmount [] [] True False)) ''2'') = Fin 2"
    using amount_validation [of "mk_field TAmount [] [] True False"]
    by (simp_all add: mk_field_def)
  have s: "schema = take 3 schema @ (''ring_size'', snd (schema ! 3)) # drop 4 schema"
    by (simp add: schema_def)
  have a: "validate sample_platform [(''ring_size'', snd (schema ! 3))]
     [(''ring_size'', JStr ''120.50'')] [] = None"
    using amount_validation [of "snd (schema ! 3)" "[(''ring_size'', JStr ''120.50'')]"
        "''ring_size''" "JStr ''120.50''" "[]" "''120''" "''50''" 10 2 sample_platform "[]"
        "[]" "[]"] L S
    by (simp add: schema_def to_string_def trim_def is_ws_def is_digit_def Let_def)
  have "validate sample_platform
          (take 3 schema @ (''ring_size'', snd (schema ! 3)) # drop 4 schema)
          (body_A[2 := (''ring_size'', JStr ''123456789.5'')]) files_A =
     Some \<lparr>error = ''ring_size integer part exceeds 8 digits'', field = ''ring_size''\<rparr>"
    using amount_validation [of "snd (schema ! 3)"
        "body_A[2 := (''ring_size'', JStr ''123456789.5'')]"
        "''ring_size''" "JStr ''123456789.5''" "[]" "''123456789''" "''5''" 10 2
        sample_platform files_A "take 3 schema" "drop 4 schema"] L S
        amount_prefix [of "JStr ''123456789.5''"]
    by (simp add: schema_def body_A_def to_string_def trim_def is_ws_def is_digit_def tostr_ev
        num_ev dec.simps digit_char_def)
  then have b: "validate sample_platform schema
     (body_A[2 := (''ring_size'', JStr ''123456789.5'')]) files_A =
     Some \<lparr>error = ''ring_size integer part exceeds 8 digits'', field = ''ring_size''\<rparr>"
    using s by simp
  have "validate sample_platform
          (take 3 schema @ (''ring_size'', snd (schema ! 3)) # drop 4 schema)
          (body_A[2 := (''ring_size'', JStr ''-1.505'')]) files_A =
     Some \<lparr>error = ''ring_size decimal part exceeds 2 places'', field = ''ring_size''\<rparr>"
    using amount_validation [of "snd (schema ! 3)"
        "body_A[2 := (''ring_size'', JStr ''-1.505'')]"
        "''ring_size''" "JStr ''-1.505''" "''-''" "''1''" "''505''" 10 2
        sample_platform files_A "take 3 schema" "drop 4 schema"] L S
        amount_prefix [of "JStr ''-1.505''"]
    by (simp add: schema_def body_A_def to_string_def trim_def is_ws_def is_digit_def tostr_ev
        num_ev dec.simps digit_char_def)
  then have c: "validate sample_platform schema
     (body_A[2 := (''ring_size'', JStr ''-1.505'')]) files_A =
     Some \<lparr>error = ''ring_size decimal part exceeds 2 places'', field = ''ring_size''\<rparr>"
    using s by simp
  have d: "validate sample_platform [(''price'', mk_field TAmount [] [] True False)]
     [(''price'', JStr ''-7'')] [] =
     Some \<lparr>error = ''price must be a positive number'', field = ''price''\<rparr>"
    using amount_validation [of "mk_field TAmount [] [] True False" "[(''price'', JStr ''-7'')]"
        "''price''" "JStr ''-7''" "''-''" "''7''" "[]" 10 2 sample_platform "[]" "[]" "[]"]
        L' S'
    by (simp add: mk_field_def to_string_def trim_def is_ws_def is_digit_def Let_def)
  from a b c d show ?thesis by simp
qed

section \<open>The table creation statement\<close>

lemma foldl_lines:
  "foldl (\<lambda>columns nf. columns @ g nf) c0 sch = c0 @ concat (map g sch)"
  by (induction sch arbitrary: c0) auto

lemma join_concat:
  "xs \<noteq> [] \<Longrightarrow> concat (map (\<lambda>x. x @ sep) xs) = join sep xs @ sep"
  by (induction sep xs rule: join.induct) auto

lemma slice_off2_sep: "slice_off2 (s @ [a, b]) = s"
  by (simp add: slice_off2_def)

lemma column_line_sep:
  "column_line nf =
   (quoted (fst nf) @ '' '' @ typeMap (snd nf) @
    (if required (snd nf) then '' NOT NULL'' else []) @
    (if unique (snd nf) then '' UNIQUE'' else [])) @ [CHR '','', nl]"
  by (cases nf) (simp add: column_line_def)

lemma createTableSQL_join:
  "createTableSQL sch =
   ''CREATE TABLE IF NOT EXISTS '' @ quoted ''Ring'' @ '' ('' @ [nl] @
   join [CHR '','', nl]
     ([quoted ''id'' @ '' BIGINT GENERATED ALWAYS AS IDENTITY PRIMARY KEY''] @
      map (\<lambda>nf. quoted (fst nf) @ '' '' @ typeMap (snd nf) @
                 (if required (snd nf) then '' NOT NULL'' else []) @
                 (if unique (snd nf) then '' UNIQUE'' else [])) sch @
      [quoted ''created_at'' @ '' TIMESTAMP NOT NULL DEFAULT CURRENT_TIMESTAMP'']) @
   [nl] @ '');''"
proof -
  let ?col = "\<lambda>nf. quoted (fst nf) @ '' '' @ typeMap (snd nf) @
                 (if required (snd nf) then '' NOT NULL'' else []) @
                 (if unique (snd nf) then '' UNIQUE'' else [])"
  let ?cols = "[quoted ''id'' @ '' BIGINT GENERATED ALWAYS AS IDENTITY PRIMARY KEY''] @
      map ?col sch @ [quoted ''created_at'' @ '' TIMESTAMP NOT NULL DEFAULT CURRENT_TIMESTAMP'']"
  have l: "column_line = (\<lambda>nf. ?col nf @ [CHR '','', nl])"
    by (rule ext) (simp add: column_line_sep)
  have "(quoted ''id'' @ '' BIGINT GENERATED ALWAYS AS IDENTITY PRIMARY KEY'' @ [CHR '','', nl]) @
        concat (map column_line sch) @
        quoted ''created_at'' @ '' TIMESTAMP NOT NULL DEFAULT CURRENT_TIMESTAMP'' @ [CHR '','', nl] =
        concat (map (\<lambda>x. x @ [CHR '','', nl]) ?cols)"
    unfolding l by (simp add: map_concat comp_def concat_map_singleton)
  also have "\<dots> = join [CHR '','', nl] ?cols @ [CHR '','', nl]"
    by (rule join_concat) simp
  finally have c: "(quoted ''id'' @ '' BIGINT GENERATED ALWAYS AS IDENTITY PRIMARY KEY'' @
        [CHR '','', nl]) @ concat (map column_line sch) @
        quoted ''created_at'' @ '' TIMESTAMP NOT NULL DEFAULT CURRENT_TIMESTAMP'' @ [CHR '','', nl] =
        join [CHR '','', nl] ?cols @ [CHR '','', nl]" .
  have "createTableSQL sch =
        ''CREATE TABLE IF NOT EXISTS '' @ quoted TABLE_NAME @ '' ('' @ [nl] @
        slice_off2 ((quoted ''id'' @ '' BIGINT GENERATED ALWAYS AS IDENTITY PRIMARY KEY'' @
          [CHR '','', nl]) @ concat (map column_line sch) @
          quoted ''created_at'' @ '' TIMESTAMP NOT NULL DEFAULT CURRENT_TIMESTAMP'' @
          [CHR '','', nl]) @ [nl] @ '');''"
    by (simp add: createTableSQL_def foldl_lines AUTO_CREATED_AT_def Let_def)
  also have "\<dots> = ''CREATE TABLE IF NOT EXISTS '' @ quoted TABLE_NAME @ '' ('' @ [nl] @
        join [CHR '','', nl] ?cols @ [nl] @ '');''"
    unfolding c slice_off2_sep ..
  finally show ?thesis by (simp add: TABLE_NAME_def)
qed

lemma num_le_Fin: "num_le (Fin a) (Fin b) = (a \<le> b)"
  by (auto simp: num_le_def num_gt_Fin)

lemma number_to_string_small:
  "0 \<le> d \<Longrightarrow> d \<le> 2 ^ 53 \<Longrightarrow> number_to_string (Fin d) = dec (nat d)"
  by (simp add: number_to_string_def pos_to_string_def isInteger_def numer_def)

lemma typeMap_number:
  assumes "ftype f = TNumber" and "num_or (parseInt10 (limit f)) (Fin 10) = Fin d"
    and "d \<le> 2 ^ 53"
  shows "typeMap f = (if d \<le> 9 then ''INTEGER'' else if d \<le> 18 then ''BIGINT''
                      else ''NUMERIC('' @ dec (nat d) @ '')'')"
  using assms by (simp add: typeMap_def num_le_Fin number_to_string_small)

text \<open>
  Claim C8: the statement is one \<open>CREATE TABLE IF NOT EXISTS\<close> whose column definitions,
  separated by a comma and a line break, are the identity primary key, then one column per
  field in declaration order (name, native type, \<open>NOT NULL\<close> if and only if the field is
  required, \<open>UNIQUE\<close> if and only if it is unique), then the creation timestamp with its
  default. The native types are those of the type mapper: bounded strings for text (50),
  description (500), email (255), url (500) and phone (15), with the field's limit before the
  default where the type has one; for a number, \<open>INTEGER\<close> up to 9 digits, \<open>BIGINT\<close> up to 18
  and \<open>NUMERIC\<close> of the digit count above (10 digits when the field sets no limit);
  \<open>DECIMAL(limit, scale)\<close> for an amount, with the defaults 10 and 2; \<open>BYTEA\<close> for photos and
  files.
\<close>

theorem create_table_statement:
  "createTableSQL sch =
     ''CREATE TABLE IF NOT EXISTS '' @ quoted ''Ring'' @ '' ('' @ [nl] @
     join [CHR '','', nl]
       ([quoted ''id'' @ '' BIGINT GENERATED ALWAYS AS IDENTITY PRIMARY KEY''] @
        map (\<lambda>nf. quoted (fst nf) @ '' '' @ typeMap (snd nf) @
                   (if required (snd nf) then '' NOT NULL'' else []) @
                   (if unique (snd nf) then '' UNIQUE'' else [])) sch @
        [quoted ''created_at'' @ '' TIMESTAMP NOT NULL DEFAULT CURRENT_TIMESTAMP'']) @
     [nl] @ '');'' \<and>
   (ftype f = TText
    \<longrightarrow> typeMap f = ''VARCHAR('' @ (if limit f = [] then ''50'' else limit f) @ '')'') \<and>
   (ftype f = TDescription
    \<longrightarrow> typeMap f = ''VARCHAR('' @ (if limit f = [] then ''500'' else limit f) @ '')'') \<and>
   (ftype f = TNumber \<and> num_or (parseInt10 (limit f)) (Fin 10) = Fin d \<and> d \<le> 2 ^ 53
    \<longrightarrow> typeMap f = (if d \<le> 9 then ''INTEGER'' else if d \<le> 18 then ''BIGINT''
                     else ''NUMERIC('' @ dec (nat d) @ '')'')) \<and>
   (limit f = [] \<longrightarrow> num_or (parseInt10 (limit f)) (Fin 10) = Fin 10) \<and>
   (ftype f = TAmount
    \<longrightarrow> typeMap f = ''DECIMAL('' @ (if limit f = [] then ''10'' else limit f) @ '', '' @
                    (if scale f = [] then ''2'' else scale f) @ '')'') \<and>
   (ftype f = TEmail \<longrightarrow> typeMap f = ''VARCHAR(255)'') \<and>
   (ftype f = TUrl \<longrightarrow> typeMap f = ''VARCHAR(500)'') \<and>
   (ftype f = TPhone
    \<longrightarrow> typeMap f = ''VARCHAR('' @ (if limit f = [] then ''15'' else limit f) @ '')'') \<and>
   (ftype f = TPhoto \<or> ftype f = TFile \<longrightarrow> typeMap f = ''BYTEA'') \<and>
   (ftype f = TYesno \<longrightarrow> typeMap f = ''BOOLEAN'') \<and>
   (ftype f = TDatetime \<longrightarrow> typeMap f = ''TIMESTAMP'') \<and>
   (ftype f = TDate \<longrightarrow> typeMap f = ''DATE'')"
proof (intro conjI impI)
  show "createTableSQL sch =
     ''CREATE TABLE IF NOT EXISTS '' @ quoted ''Ring'' @ '' ('' @ [nl] @
     join [CHR '','', nl]
       ([quoted ''id'' @ '' BIGINT GENERATED ALWAYS AS IDENTITY PRIMARY KEY''] @
        map (\<lambda>nf. quoted (fst nf) @ '' '' @ typeMap (snd nf) @
                   (if required (snd nf) then '' NOT NULL'' else []) @
                   (if unique (snd nf) then '' UNIQUE'' else [])) sch @
        [quoted ''created_at'' @ '' TIMESTAMP NOT NULL DEFAULT CURRENT_TIMESTAMP'']) @
     [nl] @ '');''"
    by (rule createTableSQL_join)
next
  assume "ftype f = TNumber \<and> num_or (parseInt10 (limit f)) (Fin 10) = Fin d \<and> d \<le> 2 ^ 53"
  then show "typeMap f = (if d \<le> 9 then ''INTEGER'' else if d \<le> 18 then ''BIGINT''
                     else ''NUMERIC('' @ dec (nat d) @ '')'')"
    by (intro typeMap_number) simp_all
next
  assume "limit f = []"
  then show "num_or (parseInt10 (limit f)) (Fin 10) = Fin 10"
    by (simp add: str_ev parse_ev num_ev)
qed (auto simp: typeMap_def str_or_def)

theorem create_table_statement_witness:
  "createTableSQL schema =
     ''CREATE TABLE IF NOT EXISTS '' @ quoted ''Ring'' @ '' ('' @ [nl] @
     quoted ''id'' @ '' BIGINT GENERATED ALWAYS AS IDENTITY PRIMARY KEY,'' @ [nl] @
     quoted ''name'' @ '' VARCHAR(20) NOT NULL,'' @ [nl] @
     quoted ''phone'' @ '' VARCHAR(10) NOT NULL,'' @ [nl] @
     quoted ''email'' @ '' VARCHAR(255),'' @ [nl] @
     quoted ''ring_size'' @ '' DECIMAL(10, 2) NOT NULL,'' @ [nl] @
     quoted ''ss'' @ '' BYTEA NOT NULL,'' @ [nl] @
     quoted ''caret'' @ '' INTEGER NOT NULL,'' @ [nl] @
     quoted ''aadhar'' @ '' BYTEA NOT NULL,'' @ [nl] @
     quoted ''created_at'' @ '' TIMESTAMP NOT NULL DEFAULT CURRENT_TIMESTAMP'' @ [nl] @ '');'' \<and>
   typeMap (mk_field TNumber ''30'' [] False False) = ''NUMERIC(30)'' \<and>
   typeMap (mk_field TNumber [] [] False False) = ''BIGINT'' \<and>
   typeMap (mk_field TDescription [] [] False False) = ''VARCHAR(500)''"
proof -
  have t: "typeMap (snd (schema ! 0)) = ''VARCHAR(20)''"
    "typeMap (snd (schema ! 1)) = ''VARCHAR(10)''"
    "typeMap (snd (schema ! 2)) = ''VARCHAR(255)''"
    "typeMap (snd (schema ! 3)) = ''DECIMAL(10, 2)''"
    "typeMap (snd (schema ! 4)) = ''BYTEA''"
    "typeMap (snd (schema ! 6)) = ''BYTEA''"
    using create_table_statement [of "[]" "snd (schema ! 0)"]
      create_table_statement [of "[]" "snd (schema ! 1)"]
      create_table_statement [of "[]" "snd (schema ! 2)"]
      create_table_statement [of "[]" "snd (schema ! 3)"]
      create_table_statement [of "[]" "snd (schema ! 4)"]
      create_table_statement [of "[]" "snd (schema ! 6)"]
    by (simp_all add: schema_def)
  have d: "num_or (parseInt10 (limit (snd (schema ! 5)))) (Fin 10) = Fin 2"
    by (simp add: schema_def str_ev parse_ev num_ev)
  have c: "typeMap (snd (schema ! 5)) = ''INTEGER''"
    using create_table_statement [of "[]" "snd (schema ! 5)" 2] d by (simp add: schema_def)
  have a: "createTableSQL schema =
     ''CREATE TABLE IF NOT EXISTS '' @ quoted ''Ring'' @ '' ('' @ [nl] @
     quoted ''id'' @ '' BIGINT GENERATED ALWAYS AS IDENTITY PRIMARY KEY,'' @ [nl] @
     quoted ''name'' @ '' VARCHAR(20) NOT NULL,'' @ [nl] @
     quoted ''phone'' @ '' VARCHAR(10) NOT NULL,'' @ [nl] @
     quoted ''email'' @ '' VARCHAR(255),'' @ [nl] @
     quoted ''ring_size'' @ '' DECIMAL(10, 2) NOT NULL,'' @ [nl] @
     quoted ''ss'' @ '' BYTEA NOT NULL,'' @ [nl] @
     quoted ''caret'' @ '' INTEGER NOT NULL,'' @ [nl] @
     quoted ''aadhar'' @ '' BYTEA NOT NULL,'' @ [nl] @
     quoted ''created_at'' @ '' TIMESTAMP NOT NULL DEFAULT CURRENT_TIMESTAMP'' @ [nl] @ '');''"
    using create_table_statement [of schema "snd (schema ! 0)"] t c
    by (simp add: schema_def)
  have d30: "num_or (parseInt10 (limit (mk_field TNumber ''30'' [] False False))) (Fin 10) =
             Fin 30"
    by (simp add: mk_field_def str_ev parse_ev num_ev)
  have b: "typeMap (mk_field TNumber ''30'' [] False False) = ''NUMERIC(30)''"
    using create_table_statement [of "[]" "mk_field TNumber ''30'' [] False False" 30] d30
    by (simp add: mk_field_def dec.simps digit_char_def)
  have d10: "num_or (parseInt10 (limit (mk_field TNumber [] [] False False))) (Fin 10) = Fin 10"
    using create_table_statement [of "[]" "mk_field TNumber [] [] False False"]
    by (simp add: mk_field_def)
  have e: "typeMap (mk_field TNumber [] [] False False) = ''BIGINT''"
    using create_table_statement [of "[]" "mk_field TNumber [] [] False False" 10] d10
    by (simp add: mk_field_def)
  have g: "typeMap (mk_field TDescription [] [] False False) = ''VARCHAR(500)''"
    using create_table_statement [of "[]" "mk_field TDescription [] [] False False"]
    by (simp add: mk_field_def)
  from a b e g show ?thesis by simp
qed

section \<open>Required fields after validation\<close>

lemma build_fields_Inl:
  "build_fields P sch body files cols vals = Inl e \<Longrightarrow>
   \<exists>name f. (name, f) \<in> set sch \<and> build_field P name f body files = Inl e"
proof (induction sch arbitrary: cols vals)
  case Nil
  then show ?case by simp
next
  case (Cons nf sch)
  obtain name f where nf: "nf = (name, f)" by (cases nf)
  show ?case
  proof (cases "build_field P name f body files")
    case (Inl e')
    with Cons.prems nf show ?thesis by auto
  next
    case (Inr r)
    show ?thesis
    proof (cases r)
      case None
      with Inr Cons.prems nf have "build_fields P sch body files cols vals = Inl e" by simp
      from Cons.IH [OF this] nf show ?thesis by auto
    next
      case (Some cb)
      obtain c b where cb: "cb = (c, b)" by (cases cb)
      with Inr Some Cons.prems nf
      have "build_fields P sch body files (cols @ [c]) (vals @ [b]) = Inl e" by simp
      from Cons.IH [OF this] nf show ?thesis by auto
    qed
  qed
qed

lemma build_field_required_raise:
  assumes "build_field P name f body files =
           Inl (Thrown \<lparr>error = x @ '' is required'', field = x\<rparr>)"
  shows "required f \<and> (if is_file_type (ftype f) then map_of files name = None
                        else map_of body name = None)"
proof -
  have c: "coerce P name f v \<noteq> Inl (Thrown \<lparr>error = x @ '' is required'', field = x\<rparr>)" for v
    by (auto simp: coerce_def verr_def Let_def)
  show ?thesis
    using assms c
    by (auto simp: build_field_def verr_def split: if_splits option.splits sum.splits)
qed

text \<open>
  On a record that passed validation the query builder never raises \<open>name is required\<close>:
  a required field that validation accepted is present in the record or in the file map.
\<close>

theorem validated_required_present:
  "validate P sch body files = None \<longrightarrow>
   buildInsertQuery P sch body files \<noteq>
     Inl (Thrown \<lparr>error = x @ '' is required'', field = x\<rparr>)"
proof
  assume v: "validate P sch body files = None"
  show "buildInsertQuery P sch body files \<noteq>
     Inl (Thrown \<lparr>error = x @ '' is required'', field = x\<rparr>)"
  proof
    assume "buildInsertQuery P sch body files =
      Inl (Thrown \<lparr>error = x @ '' is required'', field = x\<rparr>)"
    then have "build_fields P sch body files [] [] =
      Inl (Thrown \<lparr>error = x @ '' is required'', field = x\<rparr>)"
      by (auto simp: buildInsertQuery_def split: sum.splits)
    then obtain name f where m: "(name, f) \<in> set sch"
      and b: "build_field P name f body files =
              Inl (Thrown \<lparr>error = x @ '' is required'', field = x\<rparr>)"
      using build_fields_Inl by blast
    from build_field_required_raise [OF b]
    have "validate_field P name f body files \<noteq> None"
      by (auto simp: validate_field_def blank_def split: if_splits)
    with m have "validate P sch body files \<noteq> None" by (rule validate_rejects)
    with v show False by simp
  qed
qed

theorem validated_required_present_witness:
  "validate sample_platform schema body_A files_A = None \<and>
   buildInsertQuery sample_platform schema body_A files_A \<noteq>
     Inl (Thrown \<lparr>error = ''ring_size is required'', field = ''ring_size''\<rparr>)"
proof -
  have v: "validate sample_platform schema body_A files_A = None"
    by (simp add: sample_ev val_ev num_ev str_ev tostr_ev parse_ev)
  with validated_required_present [of sample_platform schema body_A files_A "''ring_size''"]
  show ?thesis by simp
qed

section \<open>Rounding of large integers\<close>

lemma bit_length_gt: "2 ^ k \<le> n \<Longrightarrow> k < bit_length n"
proof (induction k arbitrary: n)
  case 0
  then show ?case by (subst bit_length.simps) simp
next
  case (Suc k)
  then have "2 ^ k \<le> n div 2" by simp
  then have "k < bit_length (n div 2)" by (rule Suc.IH)
  moreover have "0 < (2::nat) ^ Suc k" by simp
  with Suc.prems have "n \<noteq> 0" by linarith
  ultimately show ?case by (subst bit_length.simps) simp
qed

lemma bit_length_le: "n < 2 ^ k \<Longrightarrow> bit_length n \<le> k"
proof (induction k arbitrary: n)
  case 0
  then show ?case by (subst bit_length.simps) simp
next
  case (Suc k)
  then have "n div 2 < 2 ^ k" by simp
  then have "bit_length (n div 2) \<le> k" by (rule Suc.IH)
  then show ?case by (subst bit_length.simps) simp
qed

lemma bit_length_lower: "0 < n \<Longrightarrow> 2 ^ (bit_length n - 1) \<le> n"
proof (rule ccontr)
  assume n: "0 < n" and "\<not> 2 ^ (bit_length n - 1) \<le> n"
  then have "n < 2 ^ (bit_length n - 1)" by simp
  then have "bit_length n \<le> bit_length n - 1" by (rule bit_length_le)
  moreover from n have "0 < bit_length n" by (subst bit_length.simps) simp
  ultimately show False by simp
qed

lemma bit_length_upper: "n < 2 ^ bit_length n"
proof (rule ccontr)
  assume "\<not> n < 2 ^ bit_length n"
  then have "2 ^ bit_length n \<le> n" by simp
  then have "bit_length n < bit_length n" by (rule bit_length_gt)
  then show False by simp
qed

lemma bit_length_1: "bit_length 1 = 1"
  by (simp add: bit_length.simps)

lemma bit_length_Suc_0: "bit_length (Suc 0) = Suc 0"
  by (simp add: bit_length.simps)

lemma pow2_split: "53 < L \<Longrightarrow> (2::nat) ^ (L - 1) = 2 ^ 52 * 2 ^ (L - 53)"
proof -
  assume "53 < L"
  then have eq: "L - 1 = 52 + (L - 53)" by simp
  show ?thesis by (subst eq) (rule power_add)
qed

text \<open>
  An integer \<open>a\<close> above \<open>2 ^ 53\<close> is rounded at the exponent \<open>e = bit_length a - 53\<close>: to a
  multiple of \<open>2 ^ e\<close> that is not below \<open>a\<close> rounded down.
\<close>

lemma round_ratio_big:
  assumes "2 ^ 53 < a"
  defines "e \<equiv> bit_length a - 53"
  shows "round_ratio a 1 = mk_double (a div 2 ^ e) (int e) \<or>
         round_ratio a 1 = mk_double (a div 2 ^ e + 1) (int e)"
proof -
  have L: "53 < bit_length a" using assms(1) by (intro bit_length_gt) simp
  have e0: "int (bit_length a) - int (bit_length 1) - 53 + 1 = int e"
    using L by (simp add: bit_length_1 bit_length_Suc_0 e_def)
  have "2 ^ (bit_length a - 1) \<le> a" using assms(1) by (intro bit_length_lower) simp
  moreover have "(2::nat) ^ (bit_length a - 1) = 2 ^ 52 * 2 ^ e"
    unfolding e_def using L by (rule pow2_split)
  ultimately have "2 ^ 52 * 2 ^ e \<le> a" by simp
  then have "2 ^ 52 \<le> a div 2 ^ e"
    by (simp add: less_eq_div_iff_mult_less_eq)
  then have sf: "2 ^ 52 \<le> scaled_floor a 1 (int e)"
    by (simp add: scaled_floor_def)
  have "round_ratio a 1 =
        mk_double (if 2 ^ e < 2 * (a mod 2 ^ e) \<or> 2 * (a mod 2 ^ e) = 2 ^ e \<and> odd (a div 2 ^ e)
                   then a div 2 ^ e + 1 else a div 2 ^ e) (int e)"
    unfolding round_ratio_def Let_def e0 using sf by (simp add: max_def)
  then show ?thesis by (cases "2 ^ e < 2 * (a mod 2 ^ e) \<or>
      2 * (a mod 2 ^ e) = 2 ^ e \<and> odd (a div 2 ^ e)") simp_all
qed

lemma mk_double_nonneg:
  "mk_double m (int e) = PosInf \<or> mk_double m (int e) = Fin (int (m * 2 ^ e))"
  by (simp add: mk_double_def)

lemma round_ratio_big_cases:
  assumes "2 ^ 53 < a"
  shows "round_ratio a 1 = PosInf \<or>
         (\<exists>D. round_ratio a 1 = Fin (int D) \<and> (a div 2 ^ (bit_length a - 53)) * 2 ^ (bit_length a - 53) \<le> D)"
proof -
  let ?e = "bit_length a - 53"
  from round_ratio_big [OF assms]
  consider "round_ratio a 1 = mk_double (a div 2 ^ ?e) (int ?e)"
    | "round_ratio a 1 = mk_double (a div 2 ^ ?e + 1) (int ?e)" by blast
  then obtain m where m: "round_ratio a 1 = mk_double m (int ?e)" and le: "a div 2 ^ ?e \<le> m"
    by (cases) auto
  show ?thesis
  proof (cases "mk_double m (int ?e) = PosInf")
    case True
    with m show ?thesis by simp
  next
    case False
    with mk_double_nonneg [of m ?e] have "mk_double m (int ?e) = Fin (int (m * 2 ^ ?e))" by simp
    with m have "round_ratio a 1 = Fin (int (m * 2 ^ ?e))" by simp
    moreover from le have "(a div 2 ^ ?e) * 2 ^ ?e \<le> m * 2 ^ ?e" by simp
    ultimately show ?thesis by blast
  qed
qed

text \<open>
  Rounding does not go below a double that the integer is not below: \<open>p = c * 2 ^ j\<close> with
  a mantissa \<open>c\<close> of at most 53 bits.
\<close>

lemma round_ratio_big_ge:
  assumes "2 ^ 53 < a" and "round_ratio a 1 = Fin D" and "p = c * 2 ^ j" and "c \<le> 2 ^ 53"
    and "p \<le> a"
  shows "int p \<le> D"
proof -
  let ?e = "bit_length a - 53"
  from round_ratio_big_cases [OF assms(1)] assms(2)
  obtain D' where D: "D = int D'" and lo: "(a div 2 ^ ?e) * 2 ^ ?e \<le> D'" by auto
  have L: "53 < bit_length a" using assms(1) by (intro bit_length_gt) simp
  have "p \<le> (a div 2 ^ ?e) * 2 ^ ?e"
  proof (cases "?e \<le> j")
    case True
    then have "p = (c * 2 ^ (j - ?e)) * 2 ^ ?e"
      using assms(3) by (simp add: mult.assoc flip: power_add)
    moreover have "c * 2 ^ (j - ?e) \<le> a div 2 ^ ?e"
      using assms(5) calculation by (simp add: less_eq_div_iff_mult_less_eq)
    ultimately show ?thesis by simp
  next
    case False
    then have j: "j + 1 \<le> ?e" by simp
    have "2 ^ (bit_length a - 1) \<le> a" using assms(1) by (intro bit_length_lower) simp
    moreover have "(2::nat) ^ (bit_length a - 1) = 2 ^ 52 * 2 ^ ?e"
      using L by (rule pow2_split)
    ultimately have "2 ^ 52 \<le> a div 2 ^ ?e"
      by (simp add: less_eq_div_iff_mult_less_eq)
    then have "2 ^ 52 * 2 ^ ?e \<le> (a div 2 ^ ?e) * 2 ^ ?e" by simp
    moreover have "(2::nat) ^ (j + 1) \<le> 2 ^ ?e" using j by (intro power_increasing) simp_all
    then have "(2::nat) ^ 52 * 2 ^ (j + 1) \<le> 2 ^ 52 * 2 ^ ?e" by simp
    moreover have "p \<le> 2 ^ 53 * 2 ^ j" using assms(3,4) by simp
    then have "p \<le> 2 ^ 52 * 2 ^ (j + 1)" by simp
    ultimately show ?thesis by linarith
  qed
  with lo D show ?thesis by simp
qed

lemma to_double_int_cases:
  "(\<exists>D. to_double n 1 = Fin D) \<or> to_double n 1 = PosInf \<or> to_double n 1 = NegInf"
proof (cases "n = 0 \<or> \<bar>n\<bar> \<le> 2 ^ 53")
  case True
  then show ?thesis by (auto simp: to_double_def)
next
  case False
  then have "2 ^ 53 < \<bar>n\<bar>" by simp
  then have "int (2 ^ 53) < int (nat \<bar>n\<bar>)" by simp
  then have big: "2 ^ 53 < nat \<bar>n\<bar>" by (simp only: of_nat_less_iff)
  from round_ratio_big_cases [OF big]
  have "round_ratio (nat \<bar>n\<bar>) 1 = PosInf \<or> (\<exists>D. round_ratio (nat \<bar>n\<bar>) 1 = Fin D)" by auto
  with False show ?thesis
    by (cases "0 < n") (auto simp: to_double_def num_neg_def abs_if)
qed

section \<open>Integer strings\<close>

lemma digit_not_ws: "is_digit c \<Longrightarrow> \<not> is_ws c"
  by (auto simp: is_digit_def is_ws_def)

lemma ws_not_digit: "is_ws c \<Longrightarrow> \<not> is_digit c"
  by (auto simp: is_digit_def is_ws_def)

lemma minus_not_ws: "\<not> is_ws CHR ''-''"
  by (simp add: is_ws_def)

text \<open>A trimmed string is what is left of the string after its leading white space, less trailing white space.\<close>

lemma trim_start_trim:
  "\<exists>w. trim_start raw = trim raw @ w \<and> list_all is_ws w"
proof -
  let ?t = "dropWhile is_ws raw"
  have "rev ?t = takeWhile is_ws (rev ?t) @ dropWhile is_ws (rev ?t)" by simp
  then have "?t = rev (dropWhile is_ws (rev ?t)) @ rev (takeWhile is_ws (rev ?t))"
    by (metis rev_append rev_rev_ident)
  moreover have "list_all is_ws (rev (takeWhile is_ws (rev ?t)))"
    by (auto simp: list_all_iff dest: set_takeWhileD)
  ultimately show ?thesis unfolding trim_start_def trim_def by blast
qed

lemma takeWhile_digits_ws:
  "list_all is_digit ip \<Longrightarrow> list_all is_ws w \<Longrightarrow> takeWhile is_digit (ip @ w) = ip"
  by (cases w) (auto simp: takeWhile_append list_all_iff ws_not_digit)

lemma dropWhile_digits_ws:
  "list_all is_digit ip \<Longrightarrow> list_all is_ws w \<Longrightarrow> dropWhile is_digit (ip @ w) = w"
  by (cases w) (auto simp: dropWhile_append list_all_iff ws_not_digit)

lemma scan_exponent_ws: "list_all is_ws w \<Longrightarrow> scan_exponent w = (0, w)"
  by (cases w) (auto simp: scan_exponent_def is_ws_def)

lemma scan_decimal_digits:
  assumes "ip \<noteq> []" and "list_all is_digit ip" and "list_all is_ws w"
  shows "scan_decimal (ip @ w) = Some (digits_val ip, 0, w)"
proof -
  have hd: "\<not> (w \<noteq> [] \<and> hd w = CHR ''.'')"
    using assms(3) by (cases w) (auto simp: is_ws_def)
  show ?thesis
    using assms
    by (simp add: scan_decimal_def Let_def takeWhile_digits_ws dropWhile_digits_ws
        scan_exponent_ws hd)
qed

lemma strip_sign_shape:
  assumes "sign = [] \<or> sign = ''-''" and "ip \<noteq> []" and "list_all is_digit ip"
  shows "strip_sign (sign @ ip @ w) = (sign = ''-'', ip @ w)"
proof -
  obtain d ds where ip: "ip = d # ds" and d: "is_digit d"
    using assms(2,3) by (cases ip) auto
  then have "d \<noteq> CHR ''-''" "d \<noteq> CHR ''+''" by (auto simp: is_digit_def)
  with assms(1) ip show ?thesis by (auto simp: strip_sign_def)
qed

lemma digits_not_prefixed:
  assumes "list_all is_digit ip"
  shows "\<not> startsWith ip ''0x''" and "\<not> startsWith ip ''0X''"
proof -
  have x: "\<not> is_digit CHR ''x''" "\<not> is_digit CHR ''X''"
    by (simp_all add: is_digit_def)
  show "\<not> startsWith ip ''0x''"
  proof
    assume "startsWith ip ''0x''"
    then have "take (length ''0x'') ip = ''0x''" by (simp only: startsWith_def)
    then have "CHR ''x'' \<in> set (take (length ''0x'') ip)" by simp
    then have "CHR ''x'' \<in> set ip" by (rule in_set_takeD)
    with assms x show False by (simp add: list_all_iff)
  qed
  show "\<not> startsWith ip ''0X''"
  proof
    assume "startsWith ip ''0X''"
    then have "take (length ''0X'') ip = ''0X''" by (simp only: startsWith_def)
    then have "CHR ''X'' \<in> set (take (length ''0X'') ip)" by simp
    then have "CHR ''X'' \<in> set ip" by (rule in_set_takeD)
    with assms x show False by (simp add: list_all_iff)
  qed
qed

lemma digits_not_Infinity:
  assumes "ip \<noteq> []" and "list_all is_digit ip"
  shows "\<not> startsWith (ip @ w) ''Infinity''"
proof -
  have x: "\<not> is_digit CHR ''I''" by (simp add: is_digit_def)
  obtain d ds where ip: "ip = d # ds" and d: "is_digit d"
    using assms by (cases ip) auto
  from d x have "d \<noteq> CHR ''I''" by auto
  with ip show ?thesis by (simp add: startsWith_def)
qed

lemma trim_start_shape:
  assumes "sign = [] \<or> sign = ''-''" and "ip \<noteq> []" and "list_all is_digit ip"
  shows "trim_start (sign @ ip @ w) = sign @ ip @ w"
proof -
  obtain d ds where ip: "ip = d # ds" and d: "is_digit d"
    using assms(2,3) by (cases ip) auto
  with assms(1) show ?thesis
    by (auto simp: trim_start_def digit_not_ws minus_not_ws)
qed

text \<open>\<^verbatim>\<open>parseInt\<close> of an optional minus sign and digits.\<close>

lemma parseInt_shape:
  assumes "sign = [] \<or> sign = ''-''" and "ip \<noteq> []" and "list_all is_digit ip"
  shows "parseInt (sign @ ip) = with_sign (sign = ''-'') (to_double (int (digits_val ip)) 1)"
proof -
  have a: "trim_start (sign @ ip) = sign @ ip"
    using trim_start_shape [OF assms, of "[]"] by simp
  have b: "strip_sign (sign @ ip) = (sign = ''-'', ip)"
    using strip_sign_shape [OF assms, of "[]"] by simp
  have c: "\<not> startsWith ip ''0x''" "\<not> startsWith ip ''0X''"
    using digits_not_prefixed [OF assms(3)] by simp_all
  have d: "takeWhile is_digit ip = ip" using assms(3) by (simp add: list_all_iff)
  show ?thesis using assms(2) by (simp add: parseInt_def a b c d)
qed

text \<open>
  \<^verbatim>\<open>parseFloat\<close> of a string whose trimmed form is an optional minus sign and digits is
  \<^verbatim>\<open>parseInt\<close> of the trimmed form.
\<close>

lemma parseFloat_shape:
  assumes "trim raw = sign @ ip" and "sign = [] \<or> sign = ''-''" and "ip \<noteq> []"
    and "list_all is_digit ip"
  shows "parseFloat raw = with_sign (sign = ''-'') (to_double (int (digits_val ip)) 1)"
proof -
  obtain w where ts: "trim_start raw = (sign @ ip) @ w" and w: "list_all is_ws w"
    using trim_start_trim [of raw] assms(1) by auto
  have b: "strip_sign (sign @ ip @ w) = (sign = ''-'', ip @ w)"
    using assms(2,3,4) by (rule strip_sign_shape)
  have c: "\<not> startsWith (ip @ w) ''Infinity''"
    using assms(3,4) by (rule digits_not_Infinity)
  have d: "scan_decimal (ip @ w) = Some (digits_val ip, 0, w)"
    using assms(3,4) w by (rule scan_decimal_digits)
  show ?thesis
    using ts b c d by (simp add: parseFloat_def decimal_value_def)
qed

end
